theory Spec2Isabelle
  imports Main "HOL-Library.Word"
begin

section \<open>The ZSTD and QATZSTD compression codecs of CompressionCodecZSTD.cpp\<close>

text \<open>
  A shallow embedding of \<^verbatim>\<open>src/Compression/CompressionCodecZSTD.cpp\<close>: the software codec
  \<^verbatim>\<open>CompressionCodecZSTD\<close>, the hardware-assisted \<^verbatim>\<open>CompressionCodecQATZSTD\<close> derived from it,
  and the two creator lambdas handed to the codec factory.

  The compression engine (libzstd, \<^verbatim>\<open>zstd.h\<close>) and the QAT sequence producer
  (\<^verbatim>\<open>qatseqprod.h\<close>) are libraries outside the repository. Every function of theirs that
  the file calls is a field of the record \<open>engine\<close> below, under the name of the C function,
  so that each definition reads like the C++ it embeds and holds for any engine.
\<close>

subsection \<open>Machine integers, bytes and buffers\<close>

type_synonym UInt8 = "8 word"
type_synonym UInt32 = "32 word"
type_synonym UInt64 = "64 word"
text \<open>\<^verbatim>\<open>size_t\<close> of the 64-bit targets the codec is built for.\<close>
type_synonym size_t = "64 word"
text \<open>C++ \<^verbatim>\<open>int\<close>: 32 bits, read as two's complement with \<open>sint\<close>.\<close>
type_synonym cint = "32 word"
type_synonym buffer = "UInt8 list"

subsection \<open>Exceptions\<close>

text \<open>
  The four error codes the file declares in \<^verbatim>\<open>namespace ErrorCodes\<close> (lines 49 to 55), and
  \<open>BAD_GET\<close> for the exception of \<^verbatim>\<open>Field::safeGet\<close> (declared in \<^verbatim>\<open>Core/Field.h\<close>, outside
  this file) when the literal does not hold the requested type. An exception carries its
  message and its code, as \<^verbatim>\<open>Exception(message, code)\<close> does.
\<close>

datatype ErrorCodes =
    CANNOT_COMPRESS
  | CANNOT_DECOMPRESS
  | ILLEGAL_SYNTAX_FOR_CODEC_TYPE
  | ILLEGAL_CODEC_PARAMETER
  | BAD_GET

record Exception =
  message :: string
  code :: ErrorCodes

subsection \<open>Decimal rendering: \<^verbatim>\<open>std::to_string\<close> and \<^verbatim>\<open>toString\<close>\<close>

function std_to_string :: "nat \<Rightarrow> string" where
  "std_to_string n =
     (if n < 10 then [char_of (48 + n)]
      else std_to_string (n div 10) @ [char_of (48 + n mod 10)])"
  by pat_completeness auto
termination
  by (relation "measure id") auto

declare std_to_string.simps [simp del]

definition toString :: "cint \<Rightarrow> string" where
  "toString i =
     (if sint i < 0 then CHR ''-'' # std_to_string (nat (- sint i))
      else std_to_string (nat (sint i)))"

subsection \<open>Codec arguments: the children of the arguments AST\<close>

text \<open>
  A \<^verbatim>\<open>Field\<close> holds a value of one of several types; the creators only ask for
  \<^verbatim>\<open>UInt64\<close>, which is what the parser makes of a non-negative integer. A child of the
  argument list is an \<^verbatim>\<open>ASTLiteral\<close> carrying a \<^verbatim>\<open>Field\<close>, or another kind of node, for which
  \<^verbatim>\<open>as<ASTLiteral>()\<close> returns null. \<^verbatim>\<open>Field::safeGet\<close> is defined in \<^verbatim>\<open>Core/Field.h\<close>, outside
  this file: it returns the value when the field holds the type asked for and throws
  otherwise.
\<close>

datatype Field = Field_UInt64 UInt64 | Field_other

datatype IAST = ASTLiteral Field | ASTIdentifier string

text \<open>An argument as the parser makes it from a non-negative integer.\<close>

abbreviation literal_arg :: "UInt64 \<Rightarrow> IAST" where
  "literal_arg v \<equiv> ASTLiteral (Field_UInt64 v)"

definition safeGet_UInt64 :: "Field \<Rightarrow> Exception + UInt64" where
  "safeGet_UInt64 f =
     (case f of
        Field_UInt64 v \<Rightarrow> Inr v
      | Field_other \<Rightarrow> Inl \<lparr>message = ''Bad get: requested UInt64'', code = BAD_GET\<rparr>)"

subsection \<open>The engine\<close>

datatype ZSTD_cParameter =
    ZSTD_c_compressionLevel
  | ZSTD_c_windowLog
  | ZSTD_c_enableLongDistanceMatching
  | ZSTD_c_enableSeqProducerFallback

record ZSTD_bounds =
  error :: size_t
  lowerBound :: cint
  upperBound :: cint

text \<open>
  \<open>'ctx\<close> is the content of a \<^verbatim>\<open>ZSTD_CCtx\<close>, \<open>'sps\<close> that of a sequence producer state.
  \<^verbatim>\<open>ZSTD_compress2\<close> and \<^verbatim>\<open>ZSTD_decompress\<close> return their \<^verbatim>\<open>size_t\<close> result together with
  the bytes they wrote at the start of the destination buffer; the source buffer is passed
  as the list of its first \<^verbatim>\<open>srcSize\<close> bytes. \<^verbatim>\<open>ZSTD_CCtx_setParameter\<close> and
  \<^verbatim>\<open>ZSTD_registerSequenceProducer\<close> return the updated context (the codec ignores the
  status the former returns). \<^verbatim>\<open>QZSTD_startQatDevice\<close> is the status the device reports when
  started. \<open>CompressionMethodByte_ZSTD\<close> is the enumerator \<^verbatim>\<open>CompressionMethodByte::ZSTD\<close> of
  \<^verbatim>\<open>CompressionInfo.h\<close>.
\<close>

record ('ctx, 'sps) engine =
  ZSTD_compressBound :: "size_t \<Rightarrow> size_t"
  ZSTD_maxCLevel :: cint
  ZSTD_cParam_getBounds :: "ZSTD_cParameter \<Rightarrow> ZSTD_bounds"
  ZSTD_isError :: "size_t \<Rightarrow> bool"
  ZSTD_getErrorName :: "size_t \<Rightarrow> string"
  ZSTD_createCCtx :: "'ctx"
  ZSTD_CCtx_setParameter :: "'ctx \<Rightarrow> ZSTD_cParameter \<Rightarrow> cint \<Rightarrow> 'ctx"
  ZSTD_compress2 :: "'ctx \<Rightarrow> size_t \<Rightarrow> buffer \<Rightarrow> size_t \<times> buffer"
  ZSTD_decompress :: "size_t \<Rightarrow> buffer \<Rightarrow> size_t \<times> buffer"
  ZSTD_registerSequenceProducer :: "'ctx \<Rightarrow> 'sps \<Rightarrow> 'ctx"
  QZSTD_startQatDevice :: cint
  QZSTD_createSeqProdState :: "'sps"
  CompressionMethodByte_ZSTD :: UInt8

subsection \<open>The codec classes\<close>

text \<open>
  \<open>codec_desc\<close> is the description \<^verbatim>\<open>setCodecDescription\<close> stores in the
  \<^verbatim>\<open>ICompressionCodec\<close> base: the codec name and its argument literals.
\<close>

record CompressionCodecZSTD =
  codec_desc :: "string \<times> IAST list"
  level :: cint
  enable_long_range :: bool
  window_log :: cint

text \<open>
  The derived class adds four members to those it inherits; its own \<^verbatim>\<open>level\<close> hides the
  base's and is \<open>level_QATZSTD\<close> here. The two pointers are not set by the constructor:
  \<open>None\<close> until \<^verbatim>\<open>doCompressData\<close> assigns them.
\<close>

record ('ctx, 'sps) CompressionCodecQATZSTD = CompressionCodecZSTD +
  level_QATZSTD :: cint
  initialized :: bool
  cctx :: "'ctx option"
  sequenceProducerState :: "'sps option"

datatype ('ctx, 'sps) CompressionCodecPtr =
    Ptr_ZSTD CompressionCodecZSTD
  | Ptr_QATZSTD "('ctx, 'sps) CompressionCodecQATZSTD"

definition ZSTD_DEFAULT_LEVEL :: cint where
  "ZSTD_DEFAULT_LEVEL = 1"

definition ZSTD_DEFAULT_LOG_WINDOW :: cint where
  "ZSTD_DEFAULT_LOG_WINDOW = 24"

definition QATZSTD_SUPPORTED_MIN_LEVEL :: cint where
  "QATZSTD_SUPPORTED_MIN_LEVEL = 1"

definition QATZSTD_SUPPORTED_MAX_LEVEL :: cint where
  "QATZSTD_SUPPORTED_MAX_LEVEL = 12"

text \<open>\<^verbatim>\<open>std::make_shared<ASTLiteral>(static_cast<UInt64>(i))\<close>: the cast sign-extends.\<close>

definition literal_of_int :: "cint \<Rightarrow> IAST" where
  "literal_of_int i = ASTLiteral (Field_UInt64 (scast i))"

text \<open>The constructor \<^verbatim>\<open>CompressionCodecZSTD(int level_, int window_log_)\<close>, lines 100 to 104.\<close>

definition new_CompressionCodecZSTD_window :: "cint \<Rightarrow> cint \<Rightarrow> CompressionCodecZSTD" where
  "new_CompressionCodecZSTD_window level' window_log' =
     \<lparr>codec_desc = (''ZSTD'', [literal_of_int level', literal_of_int window_log']),
      level = level', enable_long_range = True, window_log = window_log'\<rparr>"

text \<open>The constructor \<^verbatim>\<open>CompressionCodecZSTD(int level_)\<close>, lines 106 to 109.\<close>

definition new_CompressionCodecZSTD :: "cint \<Rightarrow> CompressionCodecZSTD" where
  "new_CompressionCodecZSTD level' =
     \<lparr>codec_desc = (''ZSTD'', [literal_of_int level']),
      level = level', enable_long_range = False, window_log = 0\<rparr>"

text \<open>
  The constructor \<^verbatim>\<open>CompressionCodecQATZSTD(int level_)\<close>, lines 236 to 240: the base
  constructor with one argument, the members of the derived class, then the description
  replaced.
\<close>

definition new_CompressionCodecQATZSTD :: "cint \<Rightarrow> ('ctx, 'sps) CompressionCodecQATZSTD" where
  "new_CompressionCodecQATZSTD level' =
     (CompressionCodecZSTD.extend (new_CompressionCodecZSTD level')
        (CompressionCodecQATZSTD.fields level' False None None))
     \<lparr>codec_desc := (''QATZSTD'', [literal_of_int level'])\<rparr>"

subsection \<open>The creator registered for ZSTD\<close>

text \<open>
  The lambda of \<^verbatim>\<open>registerCodecZSTD\<close>, lines 114 to 157. \<open>arguments\<close> is \<open>None\<close> for a null
  \<^verbatim>\<open>ASTPtr\<close> and the list of children otherwise. Each \<^verbatim>\<open>throw\<close> is an \<open>Inl\<close>, in the order of
  the source; the conversion of the \<^verbatim>\<open>UInt64\<close> literal to \<^verbatim>\<open>int\<close> keeps its low 32 bits.
\<close>

definition registerCodecZSTD_lambda ::
  "('ctx, 'sps) engine \<Rightarrow> IAST list option \<Rightarrow> Exception + ('ctx, 'sps) CompressionCodecPtr" where
  "registerCodecZSTD_lambda E arguments =
     (case arguments of
        None \<Rightarrow> Inr (Ptr_ZSTD (new_CompressionCodecZSTD ZSTD_DEFAULT_LEVEL))
      | Some [] \<Rightarrow> Inr (Ptr_ZSTD (new_CompressionCodecZSTD ZSTD_DEFAULT_LEVEL))
      | Some (child0 # rest) \<Rightarrow>
          if length (child0 # rest) > 2 then
            Inl \<lparr>message = ''ZSTD codec must have 1 or 2 parameters, given ''
                    @ std_to_string (length (child0 # rest)),
                 code = ILLEGAL_SYNTAX_FOR_CODEC_TYPE\<rparr>
          else
            (case child0 of
               ASTIdentifier _ \<Rightarrow>
                 Inl \<lparr>message = ''ZSTD codec argument must be integer'',
                      code = ILLEGAL_CODEC_PARAMETER\<rparr>
             | ASTLiteral literal \<Rightarrow>
                 (case safeGet_UInt64 literal of
                    Inl e \<Rightarrow> Inl e
                  | Inr v \<Rightarrow>
                      let level = (ucast v :: cint) in
                      if sint level > sint (ZSTD_maxCLevel E) then
                        Inl \<lparr>message = ''ZSTD codec can't have level more than ''
                                @ toString (ZSTD_maxCLevel E) @ '', given '' @ toString level,
                             code = ILLEGAL_CODEC_PARAMETER\<rparr>
                      else
                        (case rest of
                           [] \<Rightarrow> Inr (Ptr_ZSTD (new_CompressionCodecZSTD level))
                         | child1 # _ \<Rightarrow>
                             (case child1 of
                                ASTIdentifier _ \<Rightarrow>
                                  Inl \<lparr>message = ''ZSTD codec second argument must be integer'',
                                       code = ILLEGAL_CODEC_PARAMETER\<rparr>
                              | ASTLiteral window_literal \<Rightarrow>
                                  (case safeGet_UInt64 window_literal of
                                     Inl e \<Rightarrow> Inl e
                                   | Inr w \<Rightarrow>
                                       let window_log = (ucast w :: cint);
                                           window_log_bounds = ZSTD_cParam_getBounds E ZSTD_c_windowLog
                                       in
                                       if ZSTD_isError E (error window_log_bounds) then
                                         Inl \<lparr>message = ''ZSTD windowLog parameter is not supported ''
                                                 @ ZSTD_getErrorName E (error window_log_bounds),
                                              code = ILLEGAL_CODEC_PARAMETER\<rparr>
                                       else if window_log \<noteq> 0
                                               \<and> (sint window_log > sint (upperBound window_log_bounds)
                                                  \<or> sint window_log < sint (lowerBound window_log_bounds)) then
                                         Inl \<lparr>message = ''ZSTD codec can't have window log more than ''
                                                 @ toString (upperBound window_log_bounds)
                                                 @ '' and lower than ''
                                                 @ toString (lowerBound window_log_bounds)
                                                 @ '', given '' @ toString window_log,
                                              code = ILLEGAL_CODEC_PARAMETER\<rparr>
                                       else
                                         Inr (Ptr_ZSTD (new_CompressionCodecZSTD_window level window_log))))))))"

subsection \<open>The creator registered for QATZSTD\<close>

text \<open>The lambda of \<^verbatim>\<open>registerCodecQATZSTD\<close>, lines 211 to 233.\<close>

definition registerCodecQATZSTD_lambda ::
  "IAST list option \<Rightarrow> Exception + ('ctx, 'sps) CompressionCodecPtr" where
  "registerCodecQATZSTD_lambda arguments =
     (case arguments of
        None \<Rightarrow> Inr (Ptr_QATZSTD (new_CompressionCodecQATZSTD ZSTD_DEFAULT_LEVEL))
      | Some [] \<Rightarrow> Inr (Ptr_QATZSTD (new_CompressionCodecQATZSTD ZSTD_DEFAULT_LEVEL))
      | Some (child0 # rest) \<Rightarrow>
          if length (child0 # rest) > 1 then
            Inl \<lparr>message = ''QATZSTD codec must have 1 parameter, given ''
                    @ std_to_string (length (child0 # rest)),
                 code = ILLEGAL_SYNTAX_FOR_CODEC_TYPE\<rparr>
          else
            (case child0 of
               ASTIdentifier _ \<Rightarrow>
                 Inl \<lparr>message = ''QATZSTD codec argument must be integer'',
                      code = ILLEGAL_CODEC_PARAMETER\<rparr>
             | ASTLiteral literal \<Rightarrow>
                 (case safeGet_UInt64 literal of
                    Inl e \<Rightarrow> Inl e
                  | Inr v \<Rightarrow>
                      let level = (ucast v :: cint) in
                      if sint level > sint QATZSTD_SUPPORTED_MAX_LEVEL
                         \<or> sint level < sint QATZSTD_SUPPORTED_MIN_LEVEL then
                        Inl \<lparr>message = ''QATZSTD codec doesn't support level more than ''
                                @ toString QATZSTD_SUPPORTED_MAX_LEVEL @ '' and lower than ''
                                @ toString QATZSTD_SUPPORTED_MIN_LEVEL @ '', given '' @ toString level,
                             code = ILLEGAL_CODEC_PARAMETER\<rparr>
                      else Inr (Ptr_QATZSTD (new_CompressionCodecQATZSTD level)))))"

subsection \<open>The codec factory\<close>

text \<open>
  Modelled from the spec: \<^verbatim>\<open>CompressionCodecFactory::registerCompressionCodec\<close> is defined in
  \<^verbatim>\<open>CompressionFactory.cpp\<close>, outside this file. The spec gives it as
  \<^verbatim>\<open>register(name, wireByte: optional u8, constructor)\<close>: the factory keeps, for each
  registration, the name, the optional wire byte and the constructor.
\<close>

record ('ctx, 'sps) registration =
  family_name :: string
  byte_code :: "UInt8 option"
  creator :: "IAST list option \<Rightarrow> Exception + ('ctx, 'sps) CompressionCodecPtr"

type_synonym ('ctx, 'sps) CompressionCodecFactory = "('ctx, 'sps) registration list"

definition registerCompressionCodec ::
  "string \<Rightarrow> UInt8 option \<Rightarrow> (IAST list option \<Rightarrow> Exception + ('ctx, 'sps) CompressionCodecPtr)
   \<Rightarrow> ('ctx, 'sps) CompressionCodecFactory \<Rightarrow> ('ctx, 'sps) CompressionCodecFactory" where
  "registerCompressionCodec name wire_byte constructor factory =
     factory @ [\<lparr>family_name = name, byte_code = wire_byte, creator = constructor\<rparr>]"

text \<open>\<^verbatim>\<open>registerCodecZSTD\<close>, lines 111 to 158.\<close>

definition registerCodecZSTD ::
  "('ctx, 'sps) engine \<Rightarrow> ('ctx, 'sps) CompressionCodecFactory \<Rightarrow> ('ctx, 'sps) CompressionCodecFactory" where
  "registerCodecZSTD E factory =
     (let method_code = CompressionMethodByte_ZSTD E
      in registerCompressionCodec ''ZSTD'' (Some method_code) (registerCodecZSTD_lambda E) factory)"

text \<open>\<^verbatim>\<open>registerCodecQATZSTD\<close>, lines 209 to 234: the wire byte is \<^verbatim>\<open>{}\<close>.\<close>

definition registerCodecQATZSTD ::
  "('ctx, 'sps) engine \<Rightarrow> ('ctx, 'sps) CompressionCodecFactory \<Rightarrow> ('ctx, 'sps) CompressionCodecFactory" where
  "registerCodecQATZSTD E factory =
     registerCompressionCodec ''QATZSTD'' None registerCodecQATZSTD_lambda factory"

subsection \<open>The methods of \<^verbatim>\<open>CompressionCodecZSTD\<close>\<close>

text \<open>
  The methods take \<open>this\<close> as any extension of the base record, as a method that the derived
  class inherits does.
\<close>

definition CompressionCodecZSTD_getMethodByte ::
  "('ctx, 'sps) engine \<Rightarrow> 'a CompressionCodecZSTD_scheme \<Rightarrow> UInt8" where
  "CompressionCodecZSTD_getMethodByte E this = CompressionMethodByte_ZSTD E"

text \<open>
  Lines 67 to 70. The argument converts from \<^verbatim>\<open>UInt32\<close> to \<^verbatim>\<open>size_t\<close>, the result from
  \<^verbatim>\<open>size_t\<close> back to \<^verbatim>\<open>UInt32\<close>, keeping the low 32 bits.
\<close>

definition CompressionCodecZSTD_getMaxCompressedDataSize ::
  "('ctx, 'sps) engine \<Rightarrow> 'a CompressionCodecZSTD_scheme \<Rightarrow> UInt32 \<Rightarrow> UInt32" where
  "CompressionCodecZSTD_getMaxCompressedDataSize E this uncompressed_size =
     ucast (ZSTD_compressBound E (ucast uncompressed_size))"

text \<open>
  The call of \<^verbatim>\<open>ZSTD_compress2\<close> and what follows it, which the two \<^verbatim>\<open>doCompressData\<close> share
  word for word (lines 82 and 85 to 88, lines 201 to 206): the destination capacity is the
  engine's bound for \<^verbatim>\<open>source_size\<close>, an engine error is thrown as \<open>CANNOT_COMPRESS\<close>, and the
  \<^verbatim>\<open>size_t\<close> result is returned as \<^verbatim>\<open>UInt32\<close>. The first component is what the engine wrote to
  \<^verbatim>\<open>dest\<close>, kept also when the call throws.
\<close>

definition compress2_or_throw ::
  "('ctx, 'sps) engine \<Rightarrow> 'ctx \<Rightarrow> buffer \<Rightarrow> UInt32 \<Rightarrow> buffer \<times> (Exception + UInt32)" where
  "compress2_or_throw E cctx' source source_size' =
     (let (compressed_size, dest) =
            ZSTD_compress2 E cctx' (ZSTD_compressBound E (ucast source_size'))
              (take (unat source_size') source)
      in if ZSTD_isError E compressed_size then
           (dest, Inl \<lparr>message = ''Cannot compress block with ZSTD: ''
                           @ ZSTD_getErrorName E compressed_size,
                        code = CANNOT_COMPRESS\<rparr>)
         else (dest, Inr (ucast compressed_size)))"

text \<open>
  \<^verbatim>\<open>CompressionCodecZSTD::doCompressData\<close>, lines 73 to 89. The context is created, configured
  and freed within the call, so it is a local value here.
\<close>

definition CompressionCodecZSTD_doCompressData ::
  "('ctx, 'sps) engine \<Rightarrow> 'a CompressionCodecZSTD_scheme \<Rightarrow> buffer \<Rightarrow> UInt32
   \<Rightarrow> buffer \<times> (Exception + UInt32)" where
  "CompressionCodecZSTD_doCompressData E this source source_size' =
     (let c0 = ZSTD_createCCtx E;
          c1 = ZSTD_CCtx_setParameter E c0 ZSTD_c_compressionLevel (level this);
          c2 = (if enable_long_range this then
                  ZSTD_CCtx_setParameter E
                    (ZSTD_CCtx_setParameter E c1 ZSTD_c_enableLongDistanceMatching 1)
                    ZSTD_c_windowLog (window_log this)
                else c1)
      in compress2_or_throw E c2 source source_size')"

text \<open>
  \<^verbatim>\<open>CompressionCodecZSTD::doDecompressData\<close>, lines 92 to 98: \<open>Inr\<close> carries what the engine
  wrote to \<^verbatim>\<open>dest\<close>.
\<close>

definition CompressionCodecZSTD_doDecompressData ::
  "('ctx, 'sps) engine \<Rightarrow> 'a CompressionCodecZSTD_scheme \<Rightarrow> buffer \<Rightarrow> UInt32 \<Rightarrow> UInt32
   \<Rightarrow> Exception + buffer" where
  "CompressionCodecZSTD_doDecompressData E this source source_size' uncompressed_size =
     (let (res, dest) =
            ZSTD_decompress E (ucast uncompressed_size) (take (unat source_size') source)
      in if ZSTD_isError E res then
           Inl \<lparr>message = ''Cannot ZSTD_decompress: '' @ ZSTD_getErrorName E res,
                code = CANNOT_DECOMPRESS\<rparr>
         else Inr dest)"

subsection \<open>The methods of \<^verbatim>\<open>CompressionCodecQATZSTD\<close>\<close>

text \<open>
  What a call leaves outside the object: the warning it logs, with the value logged, and the
  two release calls of the destructor, with the handle released.
\<close>

datatype ('ctx, 'sps) effect =
    LOG_WARNING UInt32
  | QZSTD_freeSeqProdState 'sps
  | ZSTD_freeCCtx 'ctx

text \<open>
  \<^verbatim>\<open>CompressionCodecQATZSTD::doCompressData\<close>, lines 180 to 207. The members are \<^verbatim>\<open>mutable\<close>,
  so the call returns the object as it leaves it. The result is \<open>None\<close> when the call would
  pass a context pointer that was never assigned.
\<close>

definition CompressionCodecQATZSTD_doCompressData ::
  "('ctx, 'sps) engine \<Rightarrow> ('ctx, 'sps) CompressionCodecQATZSTD \<Rightarrow> buffer \<Rightarrow> UInt32
   \<Rightarrow> (('ctx, 'sps) effect list \<times> buffer \<times> (Exception + UInt32)
        \<times> ('ctx, 'sps) CompressionCodecQATZSTD) option" where
  "CompressionCodecQATZSTD_doCompressData E this source source_size' =
     (let (effects, this1) =
            (if \<not> initialized this then
               let c0 = ZSTD_createCCtx E;
                   res = QZSTD_startQatDevice E;
                   sps = QZSTD_createSeqProdState E;
                   c1 = ZSTD_registerSequenceProducer E c0 sps;
                   c2 = ZSTD_CCtx_setParameter E c1 ZSTD_c_enableSeqProducerFallback 1;
                   c3 = ZSTD_CCtx_setParameter E c2 ZSTD_c_compressionLevel (level_QATZSTD this)
               in ([LOG_WARNING (ucast res)],
                   this\<lparr>cctx := Some c3, sequenceProducerState := Some sps, initialized := True\<rparr>)
             else ([], this))
      in case cctx this1 of
           None \<Rightarrow> None
         | Some c \<Rightarrow>
             (let (dest, r) = compress2_or_throw E c source source_size'
              in Some (effects, dest, r, this1)))"

text \<open>
  The destructor, lines 242 to 250: the release calls it makes, in order; \<open>None\<close> when it
  would release a handle that was never assigned.
\<close>

definition CompressionCodecQATZSTD_destructor ::
  "('ctx, 'sps) CompressionCodecQATZSTD \<Rightarrow> ('ctx, 'sps) effect list option" where
  "CompressionCodecQATZSTD_destructor this =
     (if initialized this then
        (case (sequenceProducerState this, cctx this) of
           (Some sps, Some c) \<Rightarrow> Some [QZSTD_freeSeqProdState sps, ZSTD_freeCCtx c]
         | _ \<Rightarrow> None)
      else Some [])"

text \<open>
  The context an instance holds once it is initialized, as lines 184 to 197 build it: a
  fresh context with the sequence producer registered, the fallback enabled and the level
  set.
\<close>

definition initialized_cctx :: "('ctx, 'sps) engine \<Rightarrow> cint \<Rightarrow> 'ctx" where
  "initialized_cctx E lvl =
     ZSTD_CCtx_setParameter E
       (ZSTD_CCtx_setParameter E
          (ZSTD_registerSequenceProducer E (ZSTD_createCCtx E) (QZSTD_createSeqProdState E))
          ZSTD_c_enableSeqProducerFallback 1)
       ZSTD_c_compressionLevel lvl"

subsection \<open>Virtual calls through a \<^verbatim>\<open>CompressionCodecPtr\<close>\<close>

text \<open>
  The derived class overrides \<^verbatim>\<open>doCompressData\<close> only; every other method called on a
  QATZSTD instance is the base's.
\<close>

fun getMethodByte :: "('ctx, 'sps) engine \<Rightarrow> ('ctx, 'sps) CompressionCodecPtr \<Rightarrow> UInt8" where
  "getMethodByte E (Ptr_ZSTD this) = CompressionCodecZSTD_getMethodByte E this"
| "getMethodByte E (Ptr_QATZSTD this) = CompressionCodecZSTD_getMethodByte E this"

fun getMaxCompressedDataSize ::
  "('ctx, 'sps) engine \<Rightarrow> ('ctx, 'sps) CompressionCodecPtr \<Rightarrow> UInt32 \<Rightarrow> UInt32" where
  "getMaxCompressedDataSize E (Ptr_ZSTD this) n = CompressionCodecZSTD_getMaxCompressedDataSize E this n"
| "getMaxCompressedDataSize E (Ptr_QATZSTD this) n = CompressionCodecZSTD_getMaxCompressedDataSize E this n"

fun doCompressData ::
  "('ctx, 'sps) engine \<Rightarrow> ('ctx, 'sps) CompressionCodecPtr \<Rightarrow> buffer \<Rightarrow> UInt32
   \<Rightarrow> (('ctx, 'sps) effect list \<times> buffer \<times> (Exception + UInt32)
        \<times> ('ctx, 'sps) CompressionCodecPtr) option" where
  "doCompressData E (Ptr_ZSTD this) source source_size' =
     (let (dest, r) = CompressionCodecZSTD_doCompressData E this source source_size'
      in Some ([], dest, r, Ptr_ZSTD this))"
| "doCompressData E (Ptr_QATZSTD this) source source_size' =
     (case CompressionCodecQATZSTD_doCompressData E this source source_size' of
        None \<Rightarrow> None
      | Some (effects, dest, r, this') \<Rightarrow> Some (effects, dest, r, Ptr_QATZSTD this'))"

fun doDecompressData ::
  "('ctx, 'sps) engine \<Rightarrow> ('ctx, 'sps) CompressionCodecPtr \<Rightarrow> buffer \<Rightarrow> UInt32 \<Rightarrow> UInt32
   \<Rightarrow> Exception + buffer" where
  "doDecompressData E (Ptr_ZSTD this) source source_size' uncompressed_size =
     CompressionCodecZSTD_doDecompressData E this source source_size' uncompressed_size"
| "doDecompressData E (Ptr_QATZSTD this) source source_size' uncompressed_size =
     CompressionCodecZSTD_doDecompressData E this source source_size' uncompressed_size"

text \<open>
  A caller compressing one block after another with the same QATZSTD instance: the effects
  of all the calls in order, the outcome of each call, and the instance after the last. A
  call that throws leaves the instance to the next call as it is.
\<close>

fun compress_blocks ::
  "('ctx, 'sps) engine \<Rightarrow> ('ctx, 'sps) CompressionCodecQATZSTD \<Rightarrow> (buffer \<times> UInt32) list
   \<Rightarrow> (('ctx, 'sps) effect list \<times> (buffer \<times> (Exception + UInt32)) list
        \<times> ('ctx, 'sps) CompressionCodecQATZSTD) option" where
  "compress_blocks E this [] = Some ([], [], this)"
| "compress_blocks E this ((source, source_size') # blocks) =
     (case CompressionCodecQATZSTD_doCompressData E this source source_size' of
        None \<Rightarrow> None
      | Some (effects, dest, r, this') \<Rightarrow>
          (case compress_blocks E this' blocks of
             None \<Rightarrow> None
           | Some (effects', outcomes, this'') \<Rightarrow>
               Some (effects @ effects', (dest, r) # outcomes, this'')))"

subsection \<open>What the codec relies on from the engine\<close>

text \<open>
  The behaviour \<^verbatim>\<open>zstd.h\<close> documents for the two calls: \<^verbatim>\<open>ZSTD_compress2\<close> writes at most
  \<^verbatim>\<open>dstCapacity\<close> bytes and returns their number or an error code, whatever the parameters
  of the context; \<^verbatim>\<open>ZSTD_decompress\<close>, given the frame and a destination of the original
  size, regenerates the original content and returns its size.
\<close>

definition zstd_contract :: "('ctx, 'sps) engine \<Rightarrow> bool" where
  "zstd_contract E \<longleftrightarrow>
     (\<forall>c dstCapacity src.
        let (compressed_size, dest) = ZSTD_compress2 E c dstCapacity src in
        length dest \<le> unat dstCapacity \<and>
        (\<not> ZSTD_isError E compressed_size \<longrightarrow>
           unat compressed_size = length dest \<and>
           (length src < 2 ^ 32 \<longrightarrow>
              ZSTD_decompress E (of_nat (length src)) dest = (of_nat (length src), src)
              \<and> \<not> ZSTD_isError E (of_nat (length src)))))"





subsection \<open>A reference engine\<close>

text \<open>
  A small engine to run the codec on: its frames are the content behind one zero byte. Its
  constants are those of libzstd 1.5 on a 64-bit target: the bound is the macro
  \<^verbatim>\<open>ZSTD_COMPRESSBOUND\<close> of \<^verbatim>\<open>zstd.h\<close>, which \<^verbatim>\<open>ZSTD_compressBound\<close> returns unless it is 0;
  levels go up to 22 and window logs from 10 to 31; error codes are counted down from the
  top of \<^verbatim>\<open>size_t\<close> (\<^verbatim>\<open>prefix_unknown\<close> is 10, \<^verbatim>\<open>parameter_unsupported\<close> 40,
  \<^verbatim>\<open>dstSize_tooSmall\<close> 70, \<^verbatim>\<open>srcSize_wrong\<close> 72, \<^verbatim>\<open>maxCode\<close> 120). A context is the list of the
  parameters set, latest first. The device of this engine fails to start: the status is
  \<^verbatim>\<open>QZSTD_FAIL\<close>, which is -1.
\<close>

definition ZSTD_MAX_INPUT_SIZE :: size_t where
  "ZSTD_MAX_INPUT_SIZE = 0xFF00FF00FF00FF00"

definition ZSTD_COMPRESSBOUND :: "size_t \<Rightarrow> size_t" where
  "ZSTD_COMPRESSBOUND srcSize =
     (if srcSize \<ge> ZSTD_MAX_INPUT_SIZE then 0
      else srcSize + drop_bit 8 srcSize
           + (if srcSize < push_bit 10 128 then drop_bit 11 (push_bit 10 128 - srcSize) else 0))"

definition stored_compressBound :: "size_t \<Rightarrow> size_t" where
  "stored_compressBound srcSize =
     (let r = ZSTD_COMPRESSBOUND srcSize in if r = 0 then - 72 else r)"

definition stored_compress2 :: "size_t \<Rightarrow> buffer \<Rightarrow> size_t \<times> buffer" where
  "stored_compress2 dstCapacity src =
     (if length src < unat dstCapacity then (of_nat (length src + 1), 0 # src)
      else (- 70, []))"

definition stored_decompress :: "size_t \<Rightarrow> buffer \<Rightarrow> size_t \<times> buffer" where
  "stored_decompress dstCapacity frame =
     (case frame of
        [] \<Rightarrow> (- 72, [])
      | h # content \<Rightarrow>
          if h \<noteq> 0 then (- 10, [])
          else if length content \<le> unat dstCapacity then (of_nat (length content), content)
          else (- 70, []))"

definition stored_engine :: "((ZSTD_cParameter \<times> cint) list, nat) engine" where
  "stored_engine =
     \<lparr>ZSTD_compressBound = stored_compressBound,
      ZSTD_maxCLevel = 22,
      ZSTD_cParam_getBounds = (\<lambda>p. if p = ZSTD_c_windowLog
                                     then \<lparr>error = 0, lowerBound = 10, upperBound = 31\<rparr>
                                     else \<lparr>error = 0, lowerBound = 0, upperBound = 1\<rparr>),
      ZSTD_isError = (\<lambda>c. c > - 120),
      ZSTD_getErrorName = (\<lambda>c. if c > - 120 then ''Error'' else ''No error detected''),
      ZSTD_createCCtx = [],
      ZSTD_CCtx_setParameter = (\<lambda>c p v. (p, v) # c),
      ZSTD_compress2 = (\<lambda>c. stored_compress2),
      ZSTD_decompress = stored_decompress,
      ZSTD_registerSequenceProducer = (\<lambda>c sps. c),
      QZSTD_startQatDevice = - 1,
      QZSTD_createSeqProdState = 0,
      CompressionMethodByte_ZSTD = 0x90\<rparr>"

text \<open>The same engine, reporting an error when asked for the bounds of a parameter.\<close>

definition stored_engine_no_bounds :: "((ZSTD_cParameter \<times> cint) list, nat) engine" where
  "stored_engine_no_bounds =
     stored_engine\<lparr>ZSTD_cParam_getBounds := (\<lambda>p. \<lparr>error = - 40, lowerBound = 0, upperBound = 0\<rparr>)\<rparr>"

section \<open>Properties\<close>

subsection \<open>The creators on argument lists of literals\<close>

lemma toString_1: "toString 1 = ''1''"
  by code_simp

lemma toString_12: "toString 12 = ''12''"
  by code_simp

lemma ZSTD_lambda_level:
  "registerCodecZSTD_lambda E (Some [literal_arg v]) =
     (if sint (ZSTD_maxCLevel E) < sint (ucast v :: cint) then
        Inl \<lparr>message = ''ZSTD codec can't have level more than ''
                @ toString (ZSTD_maxCLevel E) @ '', given '' @ toString (ucast v),
             code = ILLEGAL_CODEC_PARAMETER\<rparr>
      else Inr (Ptr_ZSTD (new_CompressionCodecZSTD (ucast v))))"
  by (simp add: registerCodecZSTD_lambda_def safeGet_UInt64_def Let_def)

lemma ZSTD_lambda_level_window:
  "registerCodecZSTD_lambda E (Some [literal_arg v, literal_arg w]) =
     (if sint (ZSTD_maxCLevel E) < sint (ucast v :: cint) then
        Inl \<lparr>message = ''ZSTD codec can't have level more than ''
                @ toString (ZSTD_maxCLevel E) @ '', given '' @ toString (ucast v),
             code = ILLEGAL_CODEC_PARAMETER\<rparr>
      else if ZSTD_isError E (error (ZSTD_cParam_getBounds E ZSTD_c_windowLog)) then
        Inl \<lparr>message = ''ZSTD windowLog parameter is not supported ''
                @ ZSTD_getErrorName E (error (ZSTD_cParam_getBounds E ZSTD_c_windowLog)),
             code = ILLEGAL_CODEC_PARAMETER\<rparr>
      else if (ucast w :: cint) \<noteq> 0
              \<and> (sint (upperBound (ZSTD_cParam_getBounds E ZSTD_c_windowLog)) < sint (ucast w :: cint)
                 \<or> sint (ucast w :: cint) < sint (lowerBound (ZSTD_cParam_getBounds E ZSTD_c_windowLog))) then
        Inl \<lparr>message = ''ZSTD codec can't have window log more than ''
                @ toString (upperBound (ZSTD_cParam_getBounds E ZSTD_c_windowLog))
                @ '' and lower than ''
                @ toString (lowerBound (ZSTD_cParam_getBounds E ZSTD_c_windowLog))
                @ '', given '' @ toString (ucast w),
             code = ILLEGAL_CODEC_PARAMETER\<rparr>
      else Inr (Ptr_ZSTD (new_CompressionCodecZSTD_window (ucast v) (ucast w))))"
  by (simp add: registerCodecZSTD_lambda_def safeGet_UInt64_def Let_def)

lemma QATZSTD_lambda_level:
  "registerCodecQATZSTD_lambda (Some [literal_arg v]) =
     (if 12 < sint (ucast v :: cint) \<or> sint (ucast v :: cint) < 1 then
        Inl \<lparr>message = ''QATZSTD codec doesn't support level more than 12 and lower than 1, given ''
                @ toString (ucast v),
             code = ILLEGAL_CODEC_PARAMETER\<rparr>
      else Inr (Ptr_QATZSTD (new_CompressionCodecQATZSTD (ucast v))))"
  by (simp add: registerCodecQATZSTD_lambda_def safeGet_UInt64_def Let_def
      QATZSTD_SUPPORTED_MAX_LEVEL_def QATZSTD_SUPPORTED_MIN_LEVEL_def toString_1 toString_12)

lemma ucast_cong_mod:
  fixes v v' :: UInt64
  assumes "unat v mod 2 ^ 32 = unat v' mod 2 ^ 32"
  shows "(ucast v :: cint) = ucast v'"
  using assms
  by (simp add: word_eq_iff_unsigned [where ?'a = nat] unsigned_ucast_eq take_bit_eq_mod)

subsection \<open>Level validation\<close>

text \<open>
  C4, as amended. The software codec accepts the level that equals \<^verbatim>\<open>ZSTD_maxCLevel()\<close> and
  rejects the level one above it with \<open>ILLEGAL_CODEC_PARAMETER\<close>, whatever maximum the
  engine reports. The QATZSTD creator does not ask the engine: it accepts exactly the levels
  from 1 to 12, the two constants of the class.
\<close>

theorem level_validation_at_maximum:
  fixes E :: "('ctx, 'sps) engine" and v :: UInt64
  shows "((ucast v :: cint) = ZSTD_maxCLevel E \<longrightarrow>
            registerCodecZSTD_lambda E (Some [literal_arg v])
              = Inr (Ptr_ZSTD (new_CompressionCodecZSTD (ZSTD_maxCLevel E))))
       \<and> (sint (ucast v :: cint) = sint (ZSTD_maxCLevel E) + 1 \<longrightarrow>
            registerCodecZSTD_lambda E (Some [literal_arg v])
              = Inl \<lparr>message = ''ZSTD codec can't have level more than ''
                        @ toString (ZSTD_maxCLevel E) @ '', given '' @ toString (ucast v),
                     code = ILLEGAL_CODEC_PARAMETER\<rparr>)
       \<and> (registerCodecQATZSTD_lambda (Some [literal_arg v]) :: Exception + ('ctx, 'sps) CompressionCodecPtr)
           = (if 1 \<le> sint (ucast v :: cint) \<and> sint (ucast v :: cint) \<le> 12
              then Inr (Ptr_QATZSTD (new_CompressionCodecQATZSTD (ucast v)))
              else Inl \<lparr>message = ''QATZSTD codec doesn't support level more than 12 and lower than 1, given ''
                            @ toString (ucast v),
                         code = ILLEGAL_CODEC_PARAMETER\<rparr>)"
proof (intro conjI impI)
  assume "(ucast v :: cint) = ZSTD_maxCLevel E"
  then show "registerCodecZSTD_lambda E (Some [literal_arg v])
               = Inr (Ptr_ZSTD (new_CompressionCodecZSTD (ZSTD_maxCLevel E)))"
    by (simp add: ZSTD_lambda_level)
next
  assume "sint (ucast v :: cint) = sint (ZSTD_maxCLevel E) + 1"
  then have "sint (ZSTD_maxCLevel E) < sint (ucast v :: cint)"
    by simp
  then show "registerCodecZSTD_lambda E (Some [literal_arg v])
               = Inl \<lparr>message = ''ZSTD codec can't have level more than ''
                         @ toString (ZSTD_maxCLevel E) @ '', given '' @ toString (ucast v),
                      code = ILLEGAL_CODEC_PARAMETER\<rparr>"
    by (simp add: ZSTD_lambda_level)
next
  show "(registerCodecQATZSTD_lambda (Some [literal_arg v]) :: Exception + ('ctx, 'sps) CompressionCodecPtr)
           = (if 1 \<le> sint (ucast v :: cint) \<and> sint (ucast v :: cint) \<le> 12
              then Inr (Ptr_QATZSTD (new_CompressionCodecQATZSTD (ucast v)))
              else Inl \<lparr>message = ''QATZSTD codec doesn't support level more than 12 and lower than 1, given ''
                            @ toString (ucast v),
                         code = ILLEGAL_CODEC_PARAMETER\<rparr>)"
    by (auto simp add: QATZSTD_lambda_level)
qed

theorem level_validation_at_maximum_witness:
  "registerCodecZSTD_lambda stored_engine (Some [literal_arg 22])
     = Inr (Ptr_ZSTD (new_CompressionCodecZSTD 22))
   \<and> registerCodecZSTD_lambda stored_engine (Some [literal_arg 23])
     = Inl \<lparr>message = ''ZSTD codec can't have level more than 22, given 23'',
            code = ILLEGAL_CODEC_PARAMETER\<rparr>
   \<and> registerCodecQATZSTD_lambda (Some [literal_arg 12])
     = (Inr (Ptr_QATZSTD (new_CompressionCodecQATZSTD 12))
        :: Exception + ((ZSTD_cParameter \<times> cint) list, nat) CompressionCodecPtr)"
proof -
  have m: "ZSTD_maxCLevel stored_engine = 22"
    by (simp add: stored_engine_def)
  have s: "toString 22 = ''22''" "toString 23 = ''23''"
    by code_simp+
  show ?thesis
    using level_validation_at_maximum [of 22 stored_engine]
      level_validation_at_maximum [of 23 stored_engine]
      level_validation_at_maximum [of 12 stored_engine]
    by (simp add: m s)
qed

theorem qatzstd_level_bound_hardcoded_counterexample:
  "ZSTD_maxCLevel stored_engine = 22
   \<and> registerCodecQATZSTD_lambda (Some [literal_arg 22])
     = (Inl \<lparr>message = ''QATZSTD codec doesn't support level more than 12 and lower than 1, given 22'',
             code = ILLEGAL_CODEC_PARAMETER\<rparr>
        :: Exception + ((ZSTD_cParameter \<times> cint) list, nat) CompressionCodecPtr)"
  by code_simp

subsection \<open>Window-log validation\<close>

text \<open>
  C5, as amended. The creator validates the \<^verbatim>\<open>int\<close> that keeps the low 32 bits of the second
  literal, and does so once the level has passed and the engine has reported bounds without
  error. That \<^verbatim>\<open>int\<close> is accepted when it is 0, whatever the bounds; accepted when it is not 0
  and lies within the bounds; and rejected with \<open>ILLEGAL_CODEC_PARAMETER\<close> when it is not 0 and
  lies outside them.
\<close>

theorem window_log_validation:
  fixes E :: "('ctx, 'sps) engine" and v w :: UInt64
  assumes "sint (ucast v :: cint) \<le> sint (ZSTD_maxCLevel E)"
    and "\<not> ZSTD_isError E (error (ZSTD_cParam_getBounds E ZSTD_c_windowLog))"
  shows "((ucast w :: cint) = 0 \<longrightarrow>
            registerCodecZSTD_lambda E (Some [literal_arg v, literal_arg w])
              = Inr (Ptr_ZSTD (new_CompressionCodecZSTD_window (ucast v) 0)))
       \<and> ((ucast w :: cint) \<noteq> 0
            \<and> sint (lowerBound (ZSTD_cParam_getBounds E ZSTD_c_windowLog)) \<le> sint (ucast w :: cint)
            \<and> sint (ucast w :: cint) \<le> sint (upperBound (ZSTD_cParam_getBounds E ZSTD_c_windowLog)) \<longrightarrow>
            registerCodecZSTD_lambda E (Some [literal_arg v, literal_arg w])
              = Inr (Ptr_ZSTD (new_CompressionCodecZSTD_window (ucast v) (ucast w))))
       \<and> ((ucast w :: cint) \<noteq> 0
            \<and> (sint (ucast w :: cint) < sint (lowerBound (ZSTD_cParam_getBounds E ZSTD_c_windowLog))
               \<or> sint (upperBound (ZSTD_cParam_getBounds E ZSTD_c_windowLog)) < sint (ucast w :: cint)) \<longrightarrow>
            registerCodecZSTD_lambda E (Some [literal_arg v, literal_arg w])
              = Inl \<lparr>message = ''ZSTD codec can't have window log more than ''
                        @ toString (upperBound (ZSTD_cParam_getBounds E ZSTD_c_windowLog))
                        @ '' and lower than ''
                        @ toString (lowerBound (ZSTD_cParam_getBounds E ZSTD_c_windowLog))
                        @ '', given '' @ toString (ucast w),
                     code = ILLEGAL_CODEC_PARAMETER\<rparr>)"
  using assms by (auto simp add: ZSTD_lambda_level_window)

theorem window_log_validation_witness:
  "registerCodecZSTD_lambda stored_engine (Some [literal_arg 3, literal_arg 0])
     = Inr (Ptr_ZSTD (new_CompressionCodecZSTD_window 3 0))
   \<and> registerCodecZSTD_lambda stored_engine (Some [literal_arg 3, literal_arg 31])
     = Inr (Ptr_ZSTD (new_CompressionCodecZSTD_window 3 31))
   \<and> registerCodecZSTD_lambda stored_engine (Some [literal_arg 3, literal_arg 32])
     = Inl \<lparr>message = ''ZSTD codec can't have window log more than 31 and lower than 10, given 32'',
            code = ILLEGAL_CODEC_PARAMETER\<rparr>
   \<and> registerCodecZSTD_lambda stored_engine (Some [literal_arg 3, literal_arg 9])
     = Inl \<lparr>message = ''ZSTD codec can't have window log more than 31 and lower than 10, given 9'',
            code = ILLEGAL_CODEC_PARAMETER\<rparr>"
proof -
  have l: "sint (ucast (3 :: UInt64) :: cint) \<le> sint (ZSTD_maxCLevel stored_engine)"
    by (simp add: stored_engine_def)
  have b: "\<not> ZSTD_isError stored_engine (error (ZSTD_cParam_getBounds stored_engine ZSTD_c_windowLog))"
    by (simp add: stored_engine_def)
  have g: "ZSTD_cParam_getBounds stored_engine ZSTD_c_windowLog
             = \<lparr>error = 0, lowerBound = 10, upperBound = 31\<rparr>"
    by (simp add: stored_engine_def)
  have s: "toString 31 = ''31''" "toString 10 = ''10''" "toString 32 = ''32''" "toString 9 = ''9''"
    by code_simp+
  show ?thesis
    using window_log_validation [OF l b, of 0] window_log_validation [OF l b, of 31]
      window_log_validation [OF l b, of 32] window_log_validation [OF l b, of 9]
    by (simp add: g s)
qed

theorem window_log_not_validated_counterexample:
  "registerCodecZSTD_lambda stored_engine (Some [literal_arg 3, literal_arg 4294967296])
     = Inr (Ptr_ZSTD (new_CompressionCodecZSTD_window 3 0))
   \<and> registerCodecZSTD_lambda stored_engine (Some [literal_arg 3, literal_arg 4294967316])
     = Inr (Ptr_ZSTD (new_CompressionCodecZSTD_window 3 20))
   \<and> ZSTD_cParam_getBounds stored_engine ZSTD_c_windowLog
     = \<lparr>error = 0, lowerBound = 10, upperBound = 31\<rparr>
   \<and> registerCodecZSTD_lambda stored_engine_no_bounds (Some [literal_arg 3, literal_arg 0])
     = Inl \<lparr>message = ''ZSTD windowLog parameter is not supported Error'',
            code = ILLEGAL_CODEC_PARAMETER\<rparr>"
  by code_simp

subsection \<open>Argument count and argument kind\<close>

text \<open>
  C6, as amended. More arguments than the codec takes (two for ZSTD, one for QATZSTD) are
  rejected with \<open>ILLEGAL_SYNTAX_FOR_CODEC_TYPE\<close> before anything else is looked at: the
  outcome depends on the number of arguments only. An argument that is not a literal is
  rejected with \<open>ILLEGAL_CODEC_PARAMETER\<close>, the code of the range errors, and a literal that
  does not hold a \<^verbatim>\<open>UInt64\<close> with the exception of \<^verbatim>\<open>Field::safeGet\<close>. For the first argument of
  either codec this comes before any range check. For the second argument of ZSTD it comes
  after the range check of the level, whose error is thrown first whatever the second
  argument is, and before the bounds of the window log are asked for. With no argument (a
  null list or an empty one) both creators return an instance of level
  \<open>ZSTD_DEFAULT_LEVEL\<close>, which is 1.
\<close>

theorem argument_count_and_kind:
  fixes E :: "('ctx, 'sps) engine"
  shows "(2 < length args \<longrightarrow>
            registerCodecZSTD_lambda E (Some args)
              = Inl \<lparr>message = ''ZSTD codec must have 1 or 2 parameters, given ''
                        @ std_to_string (length args),
                     code = ILLEGAL_SYNTAX_FOR_CODEC_TYPE\<rparr>)
       \<and> (1 < length args \<longrightarrow>
            (registerCodecQATZSTD_lambda (Some args) :: Exception + ('ctx, 'sps) CompressionCodecPtr)
              = Inl \<lparr>message = ''QATZSTD codec must have 1 parameter, given ''
                        @ std_to_string (length args),
                     code = ILLEGAL_SYNTAX_FOR_CODEC_TYPE\<rparr>)
       \<and> (length rest \<le> 1 \<longrightarrow>
            registerCodecZSTD_lambda E (Some (ASTIdentifier x # rest))
              = Inl \<lparr>message = ''ZSTD codec argument must be integer'',
                     code = ILLEGAL_CODEC_PARAMETER\<rparr>)
       \<and> (registerCodecQATZSTD_lambda (Some [ASTIdentifier x]) :: Exception + ('ctx, 'sps) CompressionCodecPtr)
           = Inl \<lparr>message = ''QATZSTD codec argument must be integer'',
                  code = ILLEGAL_CODEC_PARAMETER\<rparr>
       \<and> (length rest \<le> 1 \<and> safeGet_UInt64 f = Inl e \<longrightarrow>
            registerCodecZSTD_lambda E (Some (ASTLiteral f # rest)) = Inl e)
       \<and> (safeGet_UInt64 f = Inl e \<longrightarrow>
            (registerCodecQATZSTD_lambda (Some [ASTLiteral f]) :: Exception + ('ctx, 'sps) CompressionCodecPtr)
              = Inl e)
       \<and> (sint (ZSTD_maxCLevel E) < sint (ucast v :: cint) \<longrightarrow>
            registerCodecZSTD_lambda E (Some [literal_arg v, child1])
              = Inl \<lparr>message = ''ZSTD codec can't have level more than ''
                        @ toString (ZSTD_maxCLevel E) @ '', given '' @ toString (ucast v),
                     code = ILLEGAL_CODEC_PARAMETER\<rparr>)
       \<and> (sint (ucast v :: cint) \<le> sint (ZSTD_maxCLevel E) \<longrightarrow>
            registerCodecZSTD_lambda E (Some [literal_arg v, ASTIdentifier x])
              = Inl \<lparr>message = ''ZSTD codec second argument must be integer'',
                     code = ILLEGAL_CODEC_PARAMETER\<rparr>)
       \<and> (sint (ucast v :: cint) \<le> sint (ZSTD_maxCLevel E) \<and> safeGet_UInt64 f = Inl e \<longrightarrow>
            registerCodecZSTD_lambda E (Some [literal_arg v, ASTLiteral f]) = Inl e)
       \<and> safeGet_UInt64 Field_other
           = Inl \<lparr>message = ''Bad get: requested UInt64'', code = BAD_GET\<rparr>
       \<and> registerCodecZSTD_lambda E None = Inr (Ptr_ZSTD (new_CompressionCodecZSTD 1))
       \<and> registerCodecZSTD_lambda E (Some []) = Inr (Ptr_ZSTD (new_CompressionCodecZSTD 1))
       \<and> (registerCodecQATZSTD_lambda None :: Exception + ('ctx, 'sps) CompressionCodecPtr)
           = Inr (Ptr_QATZSTD (new_CompressionCodecQATZSTD 1))
       \<and> (registerCodecQATZSTD_lambda (Some []) :: Exception + ('ctx, 'sps) CompressionCodecPtr)
           = Inr (Ptr_QATZSTD (new_CompressionCodecQATZSTD 1))
       \<and> level (new_CompressionCodecZSTD 1) = ZSTD_DEFAULT_LEVEL
       \<and> level_QATZSTD (new_CompressionCodecQATZSTD 1 :: ('ctx, 'sps) CompressionCodecQATZSTD)
           = ZSTD_DEFAULT_LEVEL"
proof -
  have count: "2 < length args \<longrightarrow>
            registerCodecZSTD_lambda E (Some args)
              = Inl \<lparr>message = ''ZSTD codec must have 1 or 2 parameters, given ''
                        @ std_to_string (length args),
                     code = ILLEGAL_SYNTAX_FOR_CODEC_TYPE\<rparr>"
    "1 < length args \<longrightarrow>
            (registerCodecQATZSTD_lambda (Some args) :: Exception + ('ctx, 'sps) CompressionCodecPtr)
              = Inl \<lparr>message = ''QATZSTD codec must have 1 parameter, given ''
                        @ std_to_string (length args),
                     code = ILLEGAL_SYNTAX_FOR_CODEC_TYPE\<rparr>"
    by (cases args; simp add: registerCodecZSTD_lambda_def registerCodecQATZSTD_lambda_def)+
  have first: "length rest \<le> 1 \<longrightarrow>
            registerCodecZSTD_lambda E (Some (ASTIdentifier x # rest))
              = Inl \<lparr>message = ''ZSTD codec argument must be integer'',
                     code = ILLEGAL_CODEC_PARAMETER\<rparr>"
    "(registerCodecQATZSTD_lambda (Some [ASTIdentifier x]) :: Exception + ('ctx, 'sps) CompressionCodecPtr)
           = Inl \<lparr>message = ''QATZSTD codec argument must be integer'',
                  code = ILLEGAL_CODEC_PARAMETER\<rparr>"
    "length rest \<le> 1 \<and> safeGet_UInt64 f = Inl e \<longrightarrow>
            registerCodecZSTD_lambda E (Some (ASTLiteral f # rest)) = Inl e"
    "safeGet_UInt64 f = Inl e \<longrightarrow>
            (registerCodecQATZSTD_lambda (Some [ASTLiteral f]) :: Exception + ('ctx, 'sps) CompressionCodecPtr)
              = Inl e"
    by (simp_all add: registerCodecZSTD_lambda_def registerCodecQATZSTD_lambda_def)
  have second: "sint (ZSTD_maxCLevel E) < sint (ucast v :: cint) \<longrightarrow>
            registerCodecZSTD_lambda E (Some [literal_arg v, child1])
              = Inl \<lparr>message = ''ZSTD codec can't have level more than ''
                        @ toString (ZSTD_maxCLevel E) @ '', given '' @ toString (ucast v),
                     code = ILLEGAL_CODEC_PARAMETER\<rparr>"
    "sint (ucast v :: cint) \<le> sint (ZSTD_maxCLevel E) \<longrightarrow>
            registerCodecZSTD_lambda E (Some [literal_arg v, ASTIdentifier x])
              = Inl \<lparr>message = ''ZSTD codec second argument must be integer'',
                     code = ILLEGAL_CODEC_PARAMETER\<rparr>"
    "sint (ucast v :: cint) \<le> sint (ZSTD_maxCLevel E) \<and> safeGet_UInt64 f = Inl e \<longrightarrow>
            registerCodecZSTD_lambda E (Some [literal_arg v, ASTLiteral f]) = Inl e"
    by (auto simp add: registerCodecZSTD_lambda_def safeGet_UInt64_def Let_def)
  have none: "safeGet_UInt64 Field_other
           = Inl \<lparr>message = ''Bad get: requested UInt64'', code = BAD_GET\<rparr>"
    "registerCodecZSTD_lambda E None = Inr (Ptr_ZSTD (new_CompressionCodecZSTD 1))"
    "registerCodecZSTD_lambda E (Some []) = Inr (Ptr_ZSTD (new_CompressionCodecZSTD 1))"
    "(registerCodecQATZSTD_lambda None :: Exception + ('ctx, 'sps) CompressionCodecPtr)
           = Inr (Ptr_QATZSTD (new_CompressionCodecQATZSTD 1))"
    "(registerCodecQATZSTD_lambda (Some []) :: Exception + ('ctx, 'sps) CompressionCodecPtr)
           = Inr (Ptr_QATZSTD (new_CompressionCodecQATZSTD 1))"
    "level (new_CompressionCodecZSTD 1) = ZSTD_DEFAULT_LEVEL"
    "level_QATZSTD (new_CompressionCodecQATZSTD 1 :: ('ctx, 'sps) CompressionCodecQATZSTD)
           = ZSTD_DEFAULT_LEVEL"
    by (simp_all add: registerCodecZSTD_lambda_def registerCodecQATZSTD_lambda_def
        safeGet_UInt64_def ZSTD_DEFAULT_LEVEL_def new_CompressionCodecZSTD_def
        new_CompressionCodecQATZSTD_def CompressionCodecZSTD.defs CompressionCodecQATZSTD.defs)
  show ?thesis
    using count first second none by (intro conjI)
qed

theorem argument_count_and_kind_witness:
  "registerCodecZSTD_lambda stored_engine (Some [literal_arg 99, literal_arg 99, ASTIdentifier ''x''])
     = Inl \<lparr>message = ''ZSTD codec must have 1 or 2 parameters, given 3'',
            code = ILLEGAL_SYNTAX_FOR_CODEC_TYPE\<rparr>
   \<and> registerCodecQATZSTD_lambda (Some [literal_arg 99, ASTIdentifier ''x''])
     = (Inl \<lparr>message = ''QATZSTD codec must have 1 parameter, given 2'',
             code = ILLEGAL_SYNTAX_FOR_CODEC_TYPE\<rparr>
        :: Exception + ((ZSTD_cParameter \<times> cint) list, nat) CompressionCodecPtr)
   \<and> registerCodecZSTD_lambda stored_engine (Some [ASTIdentifier ''x'', literal_arg 99])
     = Inl \<lparr>message = ''ZSTD codec argument must be integer'', code = ILLEGAL_CODEC_PARAMETER\<rparr>
   \<and> registerCodecZSTD_lambda stored_engine (Some [ASTLiteral Field_other, literal_arg 99])
     = Inl \<lparr>message = ''Bad get: requested UInt64'', code = BAD_GET\<rparr>
   \<and> registerCodecQATZSTD_lambda (Some [ASTLiteral Field_other])
     = (Inl \<lparr>message = ''Bad get: requested UInt64'', code = BAD_GET\<rparr>
        :: Exception + ((ZSTD_cParameter \<times> cint) list, nat) CompressionCodecPtr)
   \<and> registerCodecZSTD_lambda stored_engine (Some [literal_arg 23, ASTIdentifier ''x''])
     = Inl \<lparr>message = ''ZSTD codec can't have level more than 22, given 23'',
            code = ILLEGAL_CODEC_PARAMETER\<rparr>
   \<and> registerCodecZSTD_lambda stored_engine (Some [literal_arg 3, ASTIdentifier ''x''])
     = Inl \<lparr>message = ''ZSTD codec second argument must be integer'',
            code = ILLEGAL_CODEC_PARAMETER\<rparr>
   \<and> registerCodecZSTD_lambda stored_engine (Some [literal_arg 3, ASTLiteral Field_other])
     = Inl \<lparr>message = ''Bad get: requested UInt64'', code = BAD_GET\<rparr>"
proof -
  have "std_to_string 3 = ''3''" "std_to_string 2 = ''2''"
    by code_simp+
  then have s: "std_to_string (Suc (Suc (Suc 0))) = ''3''" "std_to_string (Suc (Suc 0)) = ''2''"
    by (simp_all add: numeral_3_eq_3 numeral_2_eq_2)
  have t: "toString 22 = ''22''" "toString 23 = ''23''"
    by code_simp+
  have m: "ZSTD_maxCLevel stored_engine = 22"
    by (simp add: stored_engine_def)
  have g: "safeGet_UInt64 Field_other = Inl \<lparr>message = ''Bad get: requested UInt64'', code = BAD_GET\<rparr>"
    by (simp add: safeGet_UInt64_def)
  note many = argument_count_and_kind
    [where args = "[literal_arg 99, literal_arg 99, ASTIdentifier ''x'']" and E = stored_engine]
  note two = argument_count_and_kind
    [where args = "[literal_arg 99, ASTIdentifier ''x'']" and E = stored_engine
       and rest = "[literal_arg 99]" and x = "''x''" and f = Field_other
       and e = "\<lparr>message = ''Bad get: requested UInt64'', code = BAD_GET\<rparr>"]
  note high = argument_count_and_kind
    [where E = stored_engine and v = 23 and ?child1.0 = "ASTIdentifier ''x''"]
  note low = argument_count_and_kind
    [where E = stored_engine and v = 3 and x = "''x''" and f = Field_other
       and e = "\<lparr>message = ''Bad get: requested UInt64'', code = BAD_GET\<rparr>"]
  have "registerCodecZSTD_lambda stored_engine (Some [literal_arg 99, literal_arg 99, ASTIdentifier ''x''])
     = Inl \<lparr>message = ''ZSTD codec must have 1 or 2 parameters, given 3'',
            code = ILLEGAL_SYNTAX_FOR_CODEC_TYPE\<rparr>"
    using many [THEN conjunct1] by (simp add: s)
  moreover have "registerCodecQATZSTD_lambda (Some [literal_arg 99, ASTIdentifier ''x''])
     = (Inl \<lparr>message = ''QATZSTD codec must have 1 parameter, given 2'',
             code = ILLEGAL_SYNTAX_FOR_CODEC_TYPE\<rparr>
        :: Exception + ((ZSTD_cParameter \<times> cint) list, nat) CompressionCodecPtr)"
    using two [THEN conjunct2, THEN conjunct1] by (simp add: s)
  moreover have "registerCodecZSTD_lambda stored_engine (Some [ASTIdentifier ''x'', literal_arg 99])
     = Inl \<lparr>message = ''ZSTD codec argument must be integer'', code = ILLEGAL_CODEC_PARAMETER\<rparr>"
    using two [THEN conjunct2, THEN conjunct2, THEN conjunct1] by simp
  moreover have "registerCodecZSTD_lambda stored_engine (Some [ASTLiteral Field_other, literal_arg 99])
     = Inl \<lparr>message = ''Bad get: requested UInt64'', code = BAD_GET\<rparr>"
    using two [THEN conjunct2, THEN conjunct2, THEN conjunct2, THEN conjunct2, THEN conjunct1] g
    by simp
  moreover have "registerCodecQATZSTD_lambda (Some [ASTLiteral Field_other])
     = (Inl \<lparr>message = ''Bad get: requested UInt64'', code = BAD_GET\<rparr>
        :: Exception + ((ZSTD_cParameter \<times> cint) list, nat) CompressionCodecPtr)"
    using two [THEN conjunct2, THEN conjunct2, THEN conjunct2, THEN conjunct2, THEN conjunct2,
        THEN conjunct1] g
    by simp
  moreover have "registerCodecZSTD_lambda stored_engine (Some [literal_arg 23, ASTIdentifier ''x''])
     = Inl \<lparr>message = ''ZSTD codec can't have level more than 22, given 23'',
            code = ILLEGAL_CODEC_PARAMETER\<rparr>"
    using high [THEN conjunct2, THEN conjunct2, THEN conjunct2, THEN conjunct2, THEN conjunct2,
        THEN conjunct2, THEN conjunct1]
    by (simp add: m t)
  moreover have "registerCodecZSTD_lambda stored_engine (Some [literal_arg 3, ASTIdentifier ''x''])
     = Inl \<lparr>message = ''ZSTD codec second argument must be integer'',
            code = ILLEGAL_CODEC_PARAMETER\<rparr>"
    using low [THEN conjunct2, THEN conjunct2, THEN conjunct2, THEN conjunct2, THEN conjunct2,
        THEN conjunct2, THEN conjunct2, THEN conjunct1]
    by (simp add: m)
  moreover have "registerCodecZSTD_lambda stored_engine (Some [literal_arg 3, ASTLiteral Field_other])
     = Inl \<lparr>message = ''Bad get: requested UInt64'', code = BAD_GET\<rparr>"
    using low [THEN conjunct2, THEN conjunct2, THEN conjunct2, THEN conjunct2, THEN conjunct2,
        THEN conjunct2, THEN conjunct2, THEN conjunct2, THEN conjunct1] g
    by (simp add: m)
  ultimately show ?thesis
    by (intro conjI)
qed

theorem non_literal_argument_counterexample:
  "registerCodecQATZSTD_lambda (Some [ASTIdentifier ''x''])
     = (Inl \<lparr>message = ''QATZSTD codec argument must be integer'', code = ILLEGAL_CODEC_PARAMETER\<rparr>
        :: Exception + ((ZSTD_cParameter \<times> cint) list, nat) CompressionCodecPtr)
   \<and> registerCodecQATZSTD_lambda (Some [literal_arg 13])
     = (Inl \<lparr>message = ''QATZSTD codec doesn't support level more than 12 and lower than 1, given 13'',
             code = ILLEGAL_CODEC_PARAMETER\<rparr>
        :: Exception + ((ZSTD_cParameter \<times> cint) list, nat) CompressionCodecPtr)
   \<and> registerCodecQATZSTD_lambda (Some [literal_arg 1, literal_arg 2])
     = (Inl \<lparr>message = ''QATZSTD codec must have 1 parameter, given 2'',
             code = ILLEGAL_SYNTAX_FOR_CODEC_TYPE\<rparr>
        :: Exception + ((ZSTD_cParameter \<times> cint) list, nat) CompressionCodecPtr)
   \<and> registerCodecZSTD_lambda stored_engine (Some [literal_arg 23, ASTIdentifier ''x''])
     = Inl \<lparr>message = ''ZSTD codec can't have level more than 22, given 23'',
            code = ILLEGAL_CODEC_PARAMETER\<rparr>"
  by code_simp

subsection \<open>An engine error on the bounds query\<close>

text \<open>
  C7, as amended. When the engine reports an error for the bounds of the window log, the
  creator throws with code \<open>ILLEGAL_CODEC_PARAMETER\<close>, the code it also throws for a window
  log outside the bounds; the message is what tells the two apart.
\<close>

theorem bounds_query_error:
  fixes E :: "('ctx, 'sps) engine" and v w :: UInt64
  assumes "sint (ucast v :: cint) \<le> sint (ZSTD_maxCLevel E)"
    and "ZSTD_isError E (error (ZSTD_cParam_getBounds E ZSTD_c_windowLog))"
  shows "registerCodecZSTD_lambda E (Some [literal_arg v, literal_arg w])
           = Inl \<lparr>message = ''ZSTD windowLog parameter is not supported ''
                     @ ZSTD_getErrorName E (error (ZSTD_cParam_getBounds E ZSTD_c_windowLog)),
                  code = ILLEGAL_CODEC_PARAMETER\<rparr>
       \<and> ''ZSTD windowLog parameter is not supported '' @ name
           \<noteq> ''ZSTD codec can't have window log more than '' @ given"
  using assms by (simp add: ZSTD_lambda_level_window)

theorem bounds_query_error_witness:
  "registerCodecZSTD_lambda stored_engine_no_bounds (Some [literal_arg 3, literal_arg 0])
     = Inl \<lparr>message = ''ZSTD windowLog parameter is not supported Error'',
            code = ILLEGAL_CODEC_PARAMETER\<rparr>"
proof -
  have l: "sint (ucast (3 :: UInt64) :: cint) \<le> sint (ZSTD_maxCLevel stored_engine_no_bounds)"
    by (simp add: stored_engine_no_bounds_def stored_engine_def)
  have b: "ZSTD_isError stored_engine_no_bounds
             (error (ZSTD_cParam_getBounds stored_engine_no_bounds ZSTD_c_windowLog))"
    by (simp add: stored_engine_no_bounds_def stored_engine_def)
  have n: "ZSTD_getErrorName stored_engine_no_bounds
             (error (ZSTD_cParam_getBounds stored_engine_no_bounds ZSTD_c_windowLog)) = ''Error''"
    by (simp add: stored_engine_no_bounds_def stored_engine_def)
  show ?thesis
    using bounds_query_error [OF l b, of 0] by (simp add: n)
qed

theorem bounds_query_error_same_code_counterexample:
  "registerCodecZSTD_lambda stored_engine_no_bounds (Some [literal_arg 3, literal_arg 20])
     = Inl \<lparr>message = ''ZSTD windowLog parameter is not supported Error'',
            code = ILLEGAL_CODEC_PARAMETER\<rparr>
   \<and> registerCodecZSTD_lambda stored_engine (Some [literal_arg 3, literal_arg 32])
     = Inl \<lparr>message = ''ZSTD codec can't have window log more than 31 and lower than 10, given 32'',
            code = ILLEGAL_CODEC_PARAMETER\<rparr>"
  by code_simp

subsection \<open>Truncation of the literals\<close>

text \<open>
  C9. Each creator reads a literal as \<^verbatim>\<open>UInt64\<close> and keeps its low 32 bits as an \<^verbatim>\<open>int\<close>: the
  level of ZSTD, its window log and the level of QATZSTD are \<open>ucast\<close> of their literals. Every
  range check compares that \<^verbatim>\<open>int\<close>, read as signed, and the instance constructed stores it. So
  two values congruent modulo \<open>2 ^ 32\<close> are cut to the same \<^verbatim>\<open>int\<close> and give the same outcome:
  the same exception, or an instance with the same members.
\<close>

theorem literals_truncated_to_int:
  fixes v v' w w' :: UInt64 and E :: "('ctx, 'sps) engine"
  shows "registerCodecZSTD_lambda E (Some [literal_arg v]) =
           (if sint (ZSTD_maxCLevel E) < sint (ucast v :: cint) then
              Inl \<lparr>message = ''ZSTD codec can't have level more than ''
                      @ toString (ZSTD_maxCLevel E) @ '', given '' @ toString (ucast v),
                   code = ILLEGAL_CODEC_PARAMETER\<rparr>
            else Inr (Ptr_ZSTD (new_CompressionCodecZSTD (ucast v))))
       \<and> registerCodecZSTD_lambda E (Some [literal_arg v, literal_arg w]) =
           (if sint (ZSTD_maxCLevel E) < sint (ucast v :: cint) then
              Inl \<lparr>message = ''ZSTD codec can't have level more than ''
                      @ toString (ZSTD_maxCLevel E) @ '', given '' @ toString (ucast v),
                   code = ILLEGAL_CODEC_PARAMETER\<rparr>
            else if ZSTD_isError E (error (ZSTD_cParam_getBounds E ZSTD_c_windowLog)) then
              Inl \<lparr>message = ''ZSTD windowLog parameter is not supported ''
                      @ ZSTD_getErrorName E (error (ZSTD_cParam_getBounds E ZSTD_c_windowLog)),
                   code = ILLEGAL_CODEC_PARAMETER\<rparr>
            else if (ucast w :: cint) \<noteq> 0
                    \<and> (sint (upperBound (ZSTD_cParam_getBounds E ZSTD_c_windowLog))
                         < sint (ucast w :: cint)
                       \<or> sint (ucast w :: cint)
                           < sint (lowerBound (ZSTD_cParam_getBounds E ZSTD_c_windowLog))) then
              Inl \<lparr>message = ''ZSTD codec can't have window log more than ''
                      @ toString (upperBound (ZSTD_cParam_getBounds E ZSTD_c_windowLog))
                      @ '' and lower than ''
                      @ toString (lowerBound (ZSTD_cParam_getBounds E ZSTD_c_windowLog))
                      @ '', given '' @ toString (ucast w),
                   code = ILLEGAL_CODEC_PARAMETER\<rparr>
            else Inr (Ptr_ZSTD (new_CompressionCodecZSTD_window (ucast v) (ucast w))))
       \<and> (registerCodecQATZSTD_lambda (Some [literal_arg v]) :: Exception + ('ctx, 'sps) CompressionCodecPtr) =
           (if 12 < sint (ucast v :: cint) \<or> sint (ucast v :: cint) < 1 then
              Inl \<lparr>message = ''QATZSTD codec doesn't support level more than 12 and lower than 1, given ''
                      @ toString (ucast v),
                   code = ILLEGAL_CODEC_PARAMETER\<rparr>
            else Inr (Ptr_QATZSTD (new_CompressionCodecQATZSTD (ucast v))))
       \<and> level (new_CompressionCodecZSTD (ucast v)) = ucast v
       \<and> level (new_CompressionCodecZSTD_window (ucast v) (ucast w)) = ucast v
       \<and> window_log (new_CompressionCodecZSTD_window (ucast v) (ucast w)) = ucast w
       \<and> level_QATZSTD (new_CompressionCodecQATZSTD (ucast v) :: ('ctx, 'sps) CompressionCodecQATZSTD)
           = ucast v
       \<and> (unat v mod 2 ^ 32 = unat v' mod 2 ^ 32 \<and> unat w mod 2 ^ 32 = unat w' mod 2 ^ 32 \<longrightarrow>
            (ucast v :: cint) = ucast v' \<and> (ucast w :: cint) = ucast w'
            \<and> registerCodecZSTD_lambda E (Some [literal_arg v])
                = registerCodecZSTD_lambda E (Some [literal_arg v'])
            \<and> registerCodecZSTD_lambda E (Some [literal_arg v, literal_arg w])
                = registerCodecZSTD_lambda E (Some [literal_arg v', literal_arg w'])
            \<and> (registerCodecQATZSTD_lambda (Some [literal_arg v]) :: Exception + ('ctx, 'sps) CompressionCodecPtr)
                = registerCodecQATZSTD_lambda (Some [literal_arg v']))"
proof -
  have members: "level (new_CompressionCodecZSTD (ucast v)) = ucast v"
    "level (new_CompressionCodecZSTD_window (ucast v) (ucast w)) = ucast v"
    "window_log (new_CompressionCodecZSTD_window (ucast v) (ucast w)) = ucast w"
    "level_QATZSTD (new_CompressionCodecQATZSTD (ucast v) :: ('ctx, 'sps) CompressionCodecQATZSTD)
           = ucast v"
    by (simp_all add: new_CompressionCodecZSTD_def new_CompressionCodecZSTD_window_def
        new_CompressionCodecQATZSTD_def CompressionCodecZSTD.defs CompressionCodecQATZSTD.defs)
  have congruent: "(ucast v :: cint) = ucast v' \<and> (ucast w :: cint) = ucast w'"
    if "unat v mod 2 ^ 32 = unat v' mod 2 ^ 32 \<and> unat w mod 2 ^ 32 = unat w' mod 2 ^ 32"
  proof (intro conjI ucast_cong_mod)
    show "unat v mod 2 ^ 32 = unat v' mod 2 ^ 32" "unat w mod 2 ^ 32 = unat w' mod 2 ^ 32"
      using that by simp_all
  qed
  have same: "registerCodecZSTD_lambda E (Some [literal_arg v])
                = registerCodecZSTD_lambda E (Some [literal_arg v'])
            \<and> registerCodecZSTD_lambda E (Some [literal_arg v, literal_arg w])
                = registerCodecZSTD_lambda E (Some [literal_arg v', literal_arg w'])
            \<and> (registerCodecQATZSTD_lambda (Some [literal_arg v]) :: Exception + ('ctx, 'sps) CompressionCodecPtr)
                = registerCodecQATZSTD_lambda (Some [literal_arg v'])"
    if "(ucast v :: cint) = ucast v' \<and> (ucast w :: cint) = ucast w'"
  proof -
    from that have l: "(ucast v :: cint) = ucast v'" and r: "(ucast w :: cint) = ucast w'"
      by simp_all
    show ?thesis
      unfolding ZSTD_lambda_level ZSTD_lambda_level_window QATZSTD_lambda_level l r
      by (intro conjI refl)
  qed
  show ?thesis
  proof (intro conjI impI)
    assume c: "unat v mod 2 ^ 32 = unat v' mod 2 ^ 32 \<and> unat w mod 2 ^ 32 = unat w' mod 2 ^ 32"
    show "(ucast v :: cint) = ucast v'" "(ucast w :: cint) = ucast w'"
      using congruent [OF c] by simp_all
    show "registerCodecZSTD_lambda E (Some [literal_arg v])
                = registerCodecZSTD_lambda E (Some [literal_arg v'])"
      "registerCodecZSTD_lambda E (Some [literal_arg v, literal_arg w])
                = registerCodecZSTD_lambda E (Some [literal_arg v', literal_arg w'])"
      "(registerCodecQATZSTD_lambda (Some [literal_arg v]) :: Exception + ('ctx, 'sps) CompressionCodecPtr)
                = registerCodecQATZSTD_lambda (Some [literal_arg v'])"
      using same [OF congruent [OF c]] by simp_all
  qed (simp_all only: members ZSTD_lambda_level ZSTD_lambda_level_window QATZSTD_lambda_level)
qed

theorem literals_truncated_to_int_witness:
  "registerCodecZSTD_lambda stored_engine (Some [literal_arg 4294967295])
     = Inr (Ptr_ZSTD (new_CompressionCodecZSTD 4294967295))
   \<and> sint (4294967295 :: cint) = - 1
   \<and> registerCodecZSTD_lambda stored_engine (Some [literal_arg 4294967299, literal_arg 4294967316])
     = Inr (Ptr_ZSTD (new_CompressionCodecZSTD_window 3 20))
   \<and> registerCodecQATZSTD_lambda (Some [literal_arg 4294967299])
     = (Inr (Ptr_QATZSTD (new_CompressionCodecQATZSTD 3))
        :: Exception + ((ZSTD_cParameter \<times> cint) list, nat) CompressionCodecPtr)
   \<and> registerCodecQATZSTD_lambda (Some [literal_arg 4294967309])
     = (Inl \<lparr>message = ''QATZSTD codec doesn't support level more than 12 and lower than 1, given 13'',
             code = ILLEGAL_CODEC_PARAMETER\<rparr>
        :: Exception + ((ZSTD_cParameter \<times> cint) list, nat) CompressionCodecPtr)
   \<and> registerCodecQATZSTD_lambda (Some [literal_arg 4294967299])
     = (registerCodecQATZSTD_lambda (Some [literal_arg 3])
        :: Exception + ((ZSTD_cParameter \<times> cint) list, nat) CompressionCodecPtr)
   \<and> registerCodecZSTD_lambda stored_engine (Some [literal_arg 4294967299, literal_arg 4294967316])
     = registerCodecZSTD_lambda stored_engine (Some [literal_arg 3, literal_arg 20])"
proof -
  have m: "ZSTD_maxCLevel stored_engine = 22"
    "ZSTD_cParam_getBounds stored_engine ZSTD_c_windowLog
       = \<lparr>error = 0, lowerBound = 10, upperBound = 31\<rparr>"
    "\<not> ZSTD_isError stored_engine 0"
    by (simp_all add: stored_engine_def)
  have t: "toString 13 = ''13''"
    by code_simp
  have n: "(4294967299 :: cint) = 3" "(4294967316 :: cint) = 20" "(4294967309 :: cint) = 13"
    by simp_all
  note minus_one = literals_truncated_to_int [where E = stored_engine and v = 4294967295]
  note three = literals_truncated_to_int
    [where E = stored_engine and v = 4294967299 and w = 4294967316 and v' = 3 and w' = 20]
  note thirteen = literals_truncated_to_int [where E = stored_engine and v = 4294967309]
  have "registerCodecZSTD_lambda stored_engine (Some [literal_arg 4294967295])
     = Inr (Ptr_ZSTD (new_CompressionCodecZSTD 4294967295))"
    using minus_one [THEN conjunct1] by (simp add: m)
  moreover have "sint (4294967295 :: cint) = - 1"
    by simp
  moreover have "registerCodecZSTD_lambda stored_engine
       (Some [literal_arg 4294967299, literal_arg 4294967316])
     = Inr (Ptr_ZSTD (new_CompressionCodecZSTD_window 3 20))"
    using three [THEN conjunct2, THEN conjunct1] by (simp add: m n)
  moreover have "registerCodecQATZSTD_lambda (Some [literal_arg 4294967299])
     = (Inr (Ptr_QATZSTD (new_CompressionCodecQATZSTD 3))
        :: Exception + ((ZSTD_cParameter \<times> cint) list, nat) CompressionCodecPtr)"
    using three [THEN conjunct2, THEN conjunct2, THEN conjunct1] by (simp add: n)
  moreover have "registerCodecQATZSTD_lambda (Some [literal_arg 4294967309])
     = (Inl \<lparr>message = ''QATZSTD codec doesn't support level more than 12 and lower than 1, given 13'',
             code = ILLEGAL_CODEC_PARAMETER\<rparr>
        :: Exception + ((ZSTD_cParameter \<times> cint) list, nat) CompressionCodecPtr)"
    using thirteen [THEN conjunct2, THEN conjunct2, THEN conjunct1] by (simp add: t n)
  moreover have "registerCodecQATZSTD_lambda (Some [literal_arg 4294967299])
     = (registerCodecQATZSTD_lambda (Some [literal_arg 3])
        :: Exception + ((ZSTD_cParameter \<times> cint) list, nat) CompressionCodecPtr)"
    "registerCodecZSTD_lambda stored_engine (Some [literal_arg 4294967299, literal_arg 4294967316])
     = registerCodecZSTD_lambda stored_engine (Some [literal_arg 3, literal_arg 20])"
    using three [THEN conjunct2, THEN conjunct2, THEN conjunct2, THEN conjunct2, THEN conjunct2,
        THEN conjunct2, THEN conjunct2]
    by simp_all
  ultimately show ?thesis
    by (intro conjI)
qed

subsection \<open>Sizes as words\<close>



lemma unat_ucast_64_32: "unat (x :: size_t) < 2 ^ 32 \<Longrightarrow> unat (ucast x :: UInt32) = unat x"
  by (simp add: unsigned_ucast_eq take_bit_nat_eq_self)

subsection \<open>What the reference engine keeps\<close>

lemma stored_isError_iff: "ZSTD_isError stored_engine c \<longleftrightarrow> 18446744073709551496 < unat c"
  by (simp add: stored_engine_def word_less_nat_alt)

lemma stored_compress2_contract:
  assumes "stored_compress2 dstCapacity src = (n, dest)"
  shows "length dest \<le> unat dstCapacity"
    and "\<not> 18446744073709551496 < unat n \<Longrightarrow> unat n = length dest"
    and "\<not> 18446744073709551496 < unat n \<Longrightarrow> length src < 2 ^ 32 \<Longrightarrow>
           stored_decompress (of_nat (length src)) dest = (of_nat (length src), src)"
proof -
  show "length dest \<le> unat dstCapacity"
    using assms by (auto simp add: stored_compress2_def split: if_splits)
  have small: "length src + 1 < 2 ^ 64" if "length src < unat dstCapacity"
  proof -
    have "unat dstCapacity < 2 ^ 64"
      using unsigned_less [of dstCapacity] by simp
    with that show ?thesis by simp
  qed
  show "unat n = length dest" if "\<not> 18446744073709551496 < unat n"
  proof (cases "length src < unat dstCapacity")
    case True
    then have "n = of_nat (length src + 1)" and "dest = 0 # src"
      using assms by (simp_all add: stored_compress2_def)
    then show ?thesis
      using small [OF True] by (simp add: unat_of_nat take_bit_nat_eq_self del: of_nat_Suc of_nat_add)
  next
    case False
    then have "n = - 70"
      using assms by (simp add: stored_compress2_def)
    with that show ?thesis by simp
  qed
  show "stored_decompress (of_nat (length src)) dest = (of_nat (length src), src)"
    if "\<not> 18446744073709551496 < unat n" and "length src < 2 ^ 32"
  proof (cases "length src < unat dstCapacity")
    case True
    then have "dest = 0 # src"
      using assms by (simp add: stored_compress2_def)
    moreover have "unat (of_nat (length src) :: size_t) = length src"
      using that(2) by (simp add: unat_of_nat take_bit_nat_eq_self)
    ultimately show ?thesis
      by (simp add: stored_decompress_def)
  next
    case False
    then have "n = - 70"
      using assms by (simp add: stored_compress2_def)
    with that show ?thesis by simp
  qed
qed

lemma stored_engine_contract: "zstd_contract stored_engine"
proof -
  have "length dest \<le> unat dstCapacity \<and>
        (\<not> ZSTD_isError stored_engine n \<longrightarrow>
           unat n = length dest \<and>
           (length src < 2 ^ 32 \<longrightarrow>
              ZSTD_decompress stored_engine (of_nat (length src)) dest = (of_nat (length src), src)
              \<and> \<not> ZSTD_isError stored_engine (of_nat (length src))))"
    if "ZSTD_compress2 stored_engine c dstCapacity src = (n, dest)" for c dstCapacity src n dest
  proof -
    have s: "stored_compress2 dstCapacity src = (n, dest)"
      using that by (simp add: stored_engine_def)
    have d: "ZSTD_decompress stored_engine = stored_decompress"
      by (simp add: stored_engine_def)
    have e: "\<not> ZSTD_isError stored_engine (of_nat (length src))" if "length src < 2 ^ 32"
      using that by (simp add: stored_isError_iff unat_of_nat take_bit_nat_eq_self)
    show ?thesis
      using stored_compress2_contract [OF s] e by (simp add: stored_isError_iff d)
  qed
  then show ?thesis
    unfolding zstd_contract_def by (simp add: split_beta Let_def) (metis prod.collapse)
qed

lemma stored_compress2_or_throw:
  "compress2_or_throw stored_engine c [1, 2, 3] 3 = ([0, 1, 2, 3], Inr 4)"
  "compress2_or_throw stored_engine c [] 0 = ([0], Inr 1)"
  by (simp_all add: compress2_or_throw_def stored_engine_def stored_compress2_def
      stored_compressBound_def ZSTD_COMPRESSBOUND_def ZSTD_MAX_INPUT_SIZE_def)

lemma stored_initialized_cctx:
  "initialized_cctx stored_engine lvl
     = [(ZSTD_c_compressionLevel, lvl), (ZSTD_c_enableSeqProducerFallback, 1)]"
  by (simp add: initialized_cctx_def stored_engine_def)




subsection \<open>Compressing with an engine that keeps the contract\<close>

lemma zstd_contractD:
  assumes "zstd_contract E" and "ZSTD_compress2 E c dstCapacity src = (n, dest)"
  shows "length dest \<le> unat dstCapacity"
    and "\<not> ZSTD_isError E n \<Longrightarrow> unat n = length dest"
    and "\<not> ZSTD_isError E n \<Longrightarrow> length src < 2 ^ 32 \<Longrightarrow>
           ZSTD_decompress E (of_nat (length src)) dest = (of_nat (length src), src)"
    and "\<not> ZSTD_isError E n \<Longrightarrow> length src < 2 ^ 32 \<Longrightarrow>
           \<not> ZSTD_isError E (of_nat (length src))"
  using assms(1) [unfolded zstd_contract_def, rule_format, of c dstCapacity src] assms(2)
  by simp_all

lemma compress2_or_throw_written:
  assumes "zstd_contract E"
  shows "length (fst (compress2_or_throw E c source n)) \<le> unat (ZSTD_compressBound E (ucast n))"
proof -
  obtain k dest where r:
    "ZSTD_compress2 E c (ZSTD_compressBound E (ucast n)) (take (unat n) source) = (k, dest)"
    by (cases "ZSTD_compress2 E c (ZSTD_compressBound E (ucast n)) (take (unat n) source)")
  have "fst (compress2_or_throw E c source n) = dest"
    by (simp add: compress2_or_throw_def r)
  with zstd_contractD(1) [OF assms r] show ?thesis by simp
qed


lemma doCompressData_compress2:
  fixes E :: "('ctx, 'sps) engine" and codec :: "('ctx, 'sps) CompressionCodecPtr"
  assumes "doCompressData E codec source n = Some (effects, dest, r, codec')"
  shows "\<exists>c. compress2_or_throw E c source n = (dest, r)"
proof (cases codec)
  case (Ptr_ZSTD this)
  with assms show ?thesis
    by (auto simp add: CompressionCodecZSTD_doCompressData_def Let_def split: prod.splits)
next
  case (Ptr_QATZSTD this)
  with assms show ?thesis
    by (auto simp add: CompressionCodecQATZSTD_doCompressData_def Let_def
        split: prod.splits option.splits if_splits)
qed

lemma doCompressData_written:
  fixes E :: "('ctx, 'sps) engine" and codec :: "('ctx, 'sps) CompressionCodecPtr"
  assumes "zstd_contract E"
    and "doCompressData E codec source n = Some (effects, dest, r, codec')"
  shows "length dest \<le> unat (ZSTD_compressBound E (ucast n))"
proof -
  obtain c where "compress2_or_throw E c source n = (dest, r)"
    using doCompressData_compress2 [OF assms(2)] ..
  then have "dest = fst (compress2_or_throw E c source n)"
    by simp
  then show ?thesis
    using compress2_or_throw_written [OF assms(1)] by simp
qed





subsection \<open>The calls on a QATZSTD instance\<close>

lemma QATZSTD_first_call:
  assumes "\<not> initialized this"
  shows "CompressionCodecQATZSTD_doCompressData E this source n =
           Some ([LOG_WARNING (QZSTD_startQatDevice E)],
                 fst (compress2_or_throw E (initialized_cctx E (level_QATZSTD this)) source n),
                 snd (compress2_or_throw E (initialized_cctx E (level_QATZSTD this)) source n),
                 this\<lparr>cctx := Some (initialized_cctx E (level_QATZSTD this)),
                      sequenceProducerState := Some (QZSTD_createSeqProdState E),
                      initialized := True\<rparr>)"
  using assms
  by (simp add: CompressionCodecQATZSTD_doCompressData_def initialized_cctx_def Let_def split_beta)

lemma QATZSTD_later_call:
  assumes "initialized this" and "cctx this = Some c"
  shows "CompressionCodecQATZSTD_doCompressData E this source n =
           Some ([], fst (compress2_or_throw E c source n), snd (compress2_or_throw E c source n), this)"
  using assms
  by (simp add: CompressionCodecQATZSTD_doCompressData_def Let_def split_beta)

lemma compress_blocks_initialized:
  assumes "initialized this" and "cctx this = Some c"
  shows "compress_blocks E this blocks =
           Some ([], map (\<lambda>(source, n). compress2_or_throw E c source n) blocks, this)"
  using assms
  by (induction blocks) (auto simp add: QATZSTD_later_call)

lemma compress_blocks_fresh:
  assumes "\<not> initialized this" and "blocks \<noteq> []"
  shows "compress_blocks E this blocks =
           Some ([LOG_WARNING (QZSTD_startQatDevice E)],
                 map (\<lambda>(source, n).
                        compress2_or_throw E (initialized_cctx E (level_QATZSTD this)) source n) blocks,
                 this\<lparr>cctx := Some (initialized_cctx E (level_QATZSTD this)),
                      sequenceProducerState := Some (QZSTD_createSeqProdState E),
                      initialized := True\<rparr>)"
proof (cases blocks)
  case Nil
  with assms(2) show ?thesis by simp
next
  case (Cons b bs)
  obtain source n where b: "b = (source, n)"
    by (cases b)
  let ?this' = "this\<lparr>cctx := Some (initialized_cctx E (level_QATZSTD this)),
                      sequenceProducerState := Some (QZSTD_createSeqProdState E),
                      initialized := True\<rparr>"
  have "initialized ?this'" and "cctx ?this' = Some (initialized_cctx E (level_QATZSTD this))"
    by simp_all
  from compress_blocks_initialized [OF this, of E bs] show ?thesis
    by (simp add: Cons b QATZSTD_first_call [OF assms(1)])
qed

lemma new_QATZSTD_fields:
  "\<not> initialized (new_CompressionCodecQATZSTD lvl)"
  "level_QATZSTD (new_CompressionCodecQATZSTD lvl) = lvl"
  "cctx (new_CompressionCodecQATZSTD lvl) = None"
  "sequenceProducerState (new_CompressionCodecQATZSTD lvl) = None"
  by (simp_all add: new_CompressionCodecQATZSTD_def CompressionCodecZSTD.defs
      CompressionCodecQATZSTD.defs new_CompressionCodecZSTD_def)

subsection \<open>Round trip\<close>



subsection \<open>The size of the destination buffer\<close>

text \<open>
  C2, as amended. \<^verbatim>\<open>getMaxCompressedDataSize\<close> is the engine's bound for the size, cut to its
  low 32 bits, and \<^verbatim>\<open>doCompressData\<close> lets the engine write up to the engine's bound itself.
  Where the bound fits in 32 bits the two agree: the maximum is the engine's bound, and
  no call writes more than the maximum to \<^verbatim>\<open>dest\<close>, whether it returns or throws.
\<close>

theorem max_compressed_size:
  fixes E :: "('ctx, 'sps) engine" and codec :: "('ctx, 'sps) CompressionCodecPtr"
  assumes "zstd_contract E"
  shows "getMaxCompressedDataSize E codec n = ucast (ZSTD_compressBound E (ucast n))
       \<and> (doCompressData E codec source n = Some (effects, dest, r, codec') \<longrightarrow>
            length dest \<le> unat (ZSTD_compressBound E (ucast n)))
       \<and> (unat (ZSTD_compressBound E (ucast n)) < 2 ^ 32 \<longrightarrow>
            unat (getMaxCompressedDataSize E codec n) = unat (ZSTD_compressBound E (ucast n))
            \<and> (doCompressData E codec source n = Some (effects, dest, r, codec') \<longrightarrow>
                 length dest \<le> unat (getMaxCompressedDataSize E codec n)))"
proof -
  have m: "getMaxCompressedDataSize E codec n = ucast (ZSTD_compressBound E (ucast n))"
    by (cases codec) (simp_all add: CompressionCodecZSTD_getMaxCompressedDataSize_def)
  have w: "length dest \<le> unat (ZSTD_compressBound E (ucast n))"
    if "doCompressData E codec source n = Some (effects, dest, r, codec')"
    using doCompressData_written [OF assms that] .
  show ?thesis
    using w by (simp add: m unat_ucast_64_32)
qed

theorem max_compressed_size_witness:
  "unat (getMaxCompressedDataSize stored_engine (Ptr_ZSTD (new_CompressionCodecZSTD 19)) 1000) = 1066
   \<and> doCompressData stored_engine (Ptr_ZSTD (new_CompressionCodecZSTD 19)) [7, 7] 2
       = Some ([], [0, 7, 7], Inr 3, Ptr_ZSTD (new_CompressionCodecZSTD 19))
   \<and> length [0, 7, 7 :: UInt8]
       \<le> unat (getMaxCompressedDataSize stored_engine (Ptr_ZSTD (new_CompressionCodecZSTD 19)) 2)"
proof -
  have b: "ZSTD_compressBound stored_engine 1000 = 1066"
    "ZSTD_compressBound stored_engine 2 = 65"
    by (simp_all add: stored_engine_def stored_compressBound_def
        ZSTD_COMPRESSBOUND_def ZSTD_MAX_INPUT_SIZE_def)
  have c: "doCompressData stored_engine (Ptr_ZSTD (new_CompressionCodecZSTD 19)) [7, 7] 2
             = Some ([], [0, 7, 7], Inr 3, Ptr_ZSTD (new_CompressionCodecZSTD 19))"
    by (simp add: CompressionCodecZSTD_doCompressData_def new_CompressionCodecZSTD_def
        compress2_or_throw_def stored_engine_def stored_compress2_def stored_compressBound_def
        ZSTD_COMPRESSBOUND_def ZSTD_MAX_INPUT_SIZE_def)
  have "unat (getMaxCompressedDataSize stored_engine (Ptr_ZSTD (new_CompressionCodecZSTD 19)) 1000) = 1066"
    using max_compressed_size [OF stored_engine_contract,
        where codec = "Ptr_ZSTD (new_CompressionCodecZSTD 19)" and n = 1000]
    by (simp add: b)
  moreover have "length [0, 7, 7 :: UInt8]
       \<le> unat (getMaxCompressedDataSize stored_engine (Ptr_ZSTD (new_CompressionCodecZSTD 19)) 2)"
    using max_compressed_size [OF stored_engine_contract,
        where codec = "Ptr_ZSTD (new_CompressionCodecZSTD 19)" and n = 2 and source = "[7, 7]"
          and effects = "[]" and dest = "[0, 7, 7]" and r = "Inr 3"
          and codec' = "Ptr_ZSTD (new_CompressionCodecZSTD 19)"]
      c
    by (simp add: b)
  ultimately show ?thesis
    using c by simp
qed

theorem max_compressed_size_truncated_counterexample:
  "unat (ZSTD_compressBound stored_engine (ucast (0xFFFFFFFF :: UInt32))) = 4311744510
   \<and> unat (getMaxCompressedDataSize stored_engine (Ptr_ZSTD (new_CompressionCodecZSTD 1)) 0xFFFFFFFF)
       = 16777214"
  by (simp add: CompressionCodecZSTD_getMaxCompressedDataSize_def stored_engine_def
      stored_compressBound_def ZSTD_COMPRESSBOUND_def ZSTD_MAX_INPUT_SIZE_def)

subsection \<open>First use of a QATZSTD instance\<close>



subsection \<open>Destruction of a QATZSTD instance\<close>

text \<open>
  C8. The destructor of an instance that never compressed makes no release call, as that of
  any instance not initialized. After one call or more of \<^verbatim>\<open>doCompressData\<close>, whether they
  returned or threw, it releases the sequence producer state and then the context, the two
  that the first call created.
\<close>

theorem qat_destructor:
  fixes E :: "('ctx, 'sps) engine" and this :: "('ctx, 'sps) CompressionCodecQATZSTD"
  shows "CompressionCodecQATZSTD_destructor
           (new_CompressionCodecQATZSTD lvl :: ('ctx, 'sps) CompressionCodecQATZSTD) = Some []
       \<and> (\<not> initialized this \<longrightarrow> CompressionCodecQATZSTD_destructor this = Some [])
       \<and> (blocks \<noteq> [] \<longrightarrow>
            (\<exists>effects outcomes this'.
               compress_blocks E (new_CompressionCodecQATZSTD lvl) blocks
                 = Some (effects, outcomes, this')
               \<and> CompressionCodecQATZSTD_destructor this'
                   = Some [QZSTD_freeSeqProdState (QZSTD_createSeqProdState E),
                           ZSTD_freeCCtx (initialized_cctx E lvl)]))"
proof (intro conjI impI)
  show "CompressionCodecQATZSTD_destructor
          (new_CompressionCodecQATZSTD lvl :: ('ctx, 'sps) CompressionCodecQATZSTD) = Some []"
    by (simp add: CompressionCodecQATZSTD_destructor_def new_QATZSTD_fields)
next
  assume "\<not> initialized this"
  then show "CompressionCodecQATZSTD_destructor this = Some []"
    by (simp add: CompressionCodecQATZSTD_destructor_def)
next
  assume "blocks \<noteq> []"
  from compress_blocks_fresh [OF new_QATZSTD_fields(1) this, of E lvl]
  show "\<exists>effects outcomes this'.
          compress_blocks E (new_CompressionCodecQATZSTD lvl) blocks = Some (effects, outcomes, this')
          \<and> CompressionCodecQATZSTD_destructor this'
              = Some [QZSTD_freeSeqProdState (QZSTD_createSeqProdState E),
                      ZSTD_freeCCtx (initialized_cctx E lvl)]"
    by (simp add: new_QATZSTD_fields CompressionCodecQATZSTD_destructor_def)
qed

theorem qat_destructor_witness:
  "CompressionCodecQATZSTD_destructor
     (new_CompressionCodecQATZSTD 3 :: ((ZSTD_cParameter \<times> cint) list, nat) CompressionCodecQATZSTD)
     = Some []
   \<and> compress_blocks stored_engine (new_CompressionCodecQATZSTD 3) [([1, 2, 3], 3)]
       = Some ([LOG_WARNING (- 1)], [([0, 1, 2, 3], Inr 4)],
               (new_CompressionCodecQATZSTD 3)
                 \<lparr>cctx := Some [(ZSTD_c_compressionLevel, 3), (ZSTD_c_enableSeqProducerFallback, 1)],
                  sequenceProducerState := Some 0, initialized := True\<rparr>)
   \<and> CompressionCodecQATZSTD_destructor
       ((new_CompressionCodecQATZSTD 3)
          \<lparr>cctx := Some [(ZSTD_c_compressionLevel, 3 :: cint), (ZSTD_c_enableSeqProducerFallback, 1)],
           sequenceProducerState := Some (0 :: nat), initialized := True\<rparr>)
       = Some [QZSTD_freeSeqProdState 0,
               ZSTD_freeCCtx [(ZSTD_c_compressionLevel, 3), (ZSTD_c_enableSeqProducerFallback, 1)]]"
proof -
  have ne: "[([1, 2, 3], 3)] \<noteq> ([] :: (buffer \<times> UInt32) list)"
    by simp
  have s: "QZSTD_startQatDevice stored_engine = - 1" "QZSTD_createSeqProdState stored_engine = 0"
    by (simp_all add: stored_engine_def)
  have run: "compress_blocks stored_engine (new_CompressionCodecQATZSTD 3) [([1, 2, 3], 3)]
       = Some ([LOG_WARNING (- 1)], [([0, 1, 2, 3], Inr 4)],
               (new_CompressionCodecQATZSTD 3)
                 \<lparr>cctx := Some [(ZSTD_c_compressionLevel, 3), (ZSTD_c_enableSeqProducerFallback, 1)],
                  sequenceProducerState := Some 0, initialized := True\<rparr>)"
    using compress_blocks_fresh [OF new_QATZSTD_fields(1) ne, of stored_engine 3]
    by (simp only: s new_QATZSTD_fields stored_initialized_cctx) (simp add: stored_compress2_or_throw)
  note destructor =
    qat_destructor [of 3 "new_CompressionCodecQATZSTD 3" "[([1, 2, 3], 3)]" stored_engine]
  have fresh: "CompressionCodecQATZSTD_destructor
     (new_CompressionCodecQATZSTD 3 :: ((ZSTD_cParameter \<times> cint) list, nat) CompressionCodecQATZSTD)
     = Some []"
    using destructor [THEN conjunct1] .
  from destructor [THEN conjunct2, THEN conjunct2, THEN mp, OF ne]
  obtain effects outcomes this' where
    "compress_blocks stored_engine (new_CompressionCodecQATZSTD 3) [([1, 2, 3], 3)]
       = Some (effects, outcomes, this')"
    and "CompressionCodecQATZSTD_destructor this'
           = Some [QZSTD_freeSeqProdState (QZSTD_createSeqProdState stored_engine),
                   ZSTD_freeCCtx (initialized_cctx stored_engine 3)]"
    by blast
  with run have used: "CompressionCodecQATZSTD_destructor
       ((new_CompressionCodecQATZSTD 3)
          \<lparr>cctx := Some [(ZSTD_c_compressionLevel, 3 :: cint), (ZSTD_c_enableSeqProducerFallback, 1)],
           sequenceProducerState := Some (0 :: nat), initialized := True\<rparr>)
       = Some [QZSTD_freeSeqProdState 0,
               ZSTD_freeCCtx [(ZSTD_c_compressionLevel, 3), (ZSTD_c_enableSeqProducerFallback, 1)]]"
    by (simp add: s stored_initialized_cctx)
  show ?thesis
    using fresh run used by simp
qed

subsection \<open>The method byte of QATZSTD\<close>

text \<open>
  C10. A QATZSTD instance answers \<^verbatim>\<open>getMethodByte\<close> with the byte of ZSTD, as a ZSTD instance
  does; the registration of QATZSTD gives the factory no byte, that of ZSTD gives the byte of
  ZSTD; and \<^verbatim>\<open>doDecompressData\<close> on a QATZSTD instance is the one of ZSTD.
\<close>

theorem qat_method_byte:
  fixes E :: "('ctx, 'sps) engine"
  shows "getMethodByte E (Ptr_QATZSTD q) = CompressionMethodByte_ZSTD E
       \<and> getMethodByte E (Ptr_QATZSTD q) = getMethodByte E (Ptr_ZSTD z)
       \<and> map (\<lambda>r. (family_name r, byte_code r)) (registerCodecQATZSTD E (registerCodecZSTD E []))
           = [(''ZSTD'', Some (CompressionMethodByte_ZSTD E)), (''QATZSTD'', None)]
       \<and> doDecompressData E (Ptr_QATZSTD q) source n uncompressed_size
           = doDecompressData E (Ptr_ZSTD z) source n uncompressed_size
       \<and> doDecompressData E (Ptr_QATZSTD q) source n uncompressed_size
           = CompressionCodecZSTD_doDecompressData E q source n uncompressed_size"
  by (simp add: CompressionCodecZSTD_getMethodByte_def registerCodecQATZSTD_def
      registerCodecZSTD_def registerCompressionCodec_def CompressionCodecZSTD_doDecompressData_def)

end
